theory Spec2Isabelle
  imports Main "HOL-Library.Sublist"
begin

section \<open>JavaScript values read by the page\<close>

text \<open>
  The page (\<^verbatim>\<open>frontend/src/App.tsx\<close>) receives JSON from the server and never
  checks its shape: \<^verbatim>\<open>response.json()\<close> and \<^verbatim>\<open>JSON.parse\<close> are typed
  \<^verbatim>\<open>any\<close>. A received value is therefore modelled as an untyped JavaScript
  value. A string is the sequence of its bytes in UTF-8, where an unpaired surrogate
  (which a JavaScript string may hold) is the three bytes \<open>ED A0..BF 80..BF\<close> of
  its code point. A number is kept as its canonical decimal rendering (what \<^verbatim>\<open>String(n)\<close> returns), which is all
  the page ever observes of one: it stores numbers, tests their truthiness and
  interpolates them into strings. The properties of an object are an association list
  with distinct keys, in insertion order.
\<close>

datatype jsval =
    JUndefined
  | JNull
  | JBool bool
  | JNum string
  | JStr string
  | JArr "jsval list"
  | JObj "(string \<times> jsval) list"

text \<open>JavaScript truthiness (the test behind \<^verbatim>\<open>!x\<close>, \<^verbatim>\<open>x || y\<close>, \<^verbatim>\<open>x && y\<close>).\<close>

fun truthy :: "jsval \<Rightarrow> bool" where
  "truthy JUndefined = False"
| "truthy JNull = False"
| "truthy (JBool b) = b"
| "truthy (JNum n) = (n \<noteq> ''0'' \<and> n \<noteq> ''NaN'')"
| "truthy (JStr s) = (s \<noteq> [])"
| "truthy (JArr vs) = True"
| "truthy (JObj kvs) = True"

fun join :: "string \<Rightarrow> string list \<Rightarrow> string" where
  "join sep [] = []"
| "join sep [s] = s"
| "join sep (s # t # ss) = s @ sep @ join sep (t # ss)"

text \<open>
  A thrown value, as the \<^verbatim>\<open>catch\<close> blocks see it: an \<^verbatim>\<open>Error\<close> instance
  with its message (a \<^verbatim>\<open>TypeError\<close>, \<^verbatim>\<open>URIError\<close>, \<^verbatim>\<open>SyntaxError\<close> and a
  \<^verbatim>\<open>DOMException\<close> are such instances), or anything else. The messages of the
  exceptions the engine raises are the engine's; V8's wording is used.
\<close>

datatype exn = ErrorObj string | NonError

text \<open>
  The string conversion applied by a template literal and by \<^verbatim>\<open>new Error(x)\<close>.
  It can throw. A plain object converts through \<^verbatim>\<open>Object.prototype.toString\<close> to
  \<^verbatim>\<open>[object Object]\<close>, unless it has a property \<^verbatim>\<open>toString\<close> of its own: a
  parsed JSON value is never callable, so the conversion then finds no usable method
  (the inherited \<^verbatim>\<open>valueOf\<close> returns the object itself, an own one is not callable
  either) and throws a \<^verbatim>\<open>TypeError\<close>. An array is the comma-joined conversion of
  its elements from left to right, with \<^verbatim>\<open>null\<close> and \<^verbatim>\<open>undefined\<close> elements
  rendered empty, and throws when the conversion of an element does.
\<close>

fun toString :: "jsval \<Rightarrow> exn + string"
  and toStrings :: "jsval list \<Rightarrow> exn + string list" where
  "toString JUndefined = Inr ''undefined''"
| "toString JNull = Inr ''null''"
| "toString (JBool b) = Inr (if b then ''true'' else ''false'')"
| "toString (JNum n) = Inr n"
| "toString (JStr s) = Inr s"
| "toString (JArr vs) = (case toStrings vs of Inl e \<Rightarrow> Inl e | Inr ss \<Rightarrow> Inr (join '','' ss))"
| "toString (JObj kvs) =
     (if map_of kvs ''toString'' \<noteq> None
      then Inl (ErrorObj ''Cannot convert object to primitive value'')
      else Inr ''[object Object]'')"
| "toStrings [] = Inr []"
| "toStrings (v # vs) =
     (case (if v = JUndefined \<or> v = JNull then Inr [] else toString v) of
        Inl e \<Rightarrow> Inl e
      | Inr s \<Rightarrow> (case toStrings vs of Inl e \<Rightarrow> Inl e | Inr ss \<Rightarrow> Inr (s # ss)))"

text \<open>
  Property access \<^verbatim>\<open>v.k\<close> for the names the page reads (\<^verbatim>\<open>detail\<close>,
  \<^verbatim>\<open>status\<close>, \<^verbatim>\<open>download_url\<close>); none of them is a built-in property of a
  string, number, boolean or array. On \<^verbatim>\<open>null\<close> and \<^verbatim>\<open>undefined\<close> the access
  throws a \<^verbatim>\<open>TypeError\<close>.
\<close>

definition typeError :: "string \<Rightarrow> string \<Rightarrow> exn" where
  "typeError what k =
     ErrorObj (''Cannot read properties of '' @ what @ '' (reading '' @ [CHR 0x27] @ k @ [CHR 0x27] @ '')'')"

fun get :: "jsval \<Rightarrow> string \<Rightarrow> exn + jsval" where
  "get JUndefined k = Inl (typeError ''undefined'' k)"
| "get JNull k = Inl (typeError ''null'' k)"
| "get (JObj kvs) k = Inr (case map_of kvs k of None \<Rightarrow> JUndefined | Some v \<Rightarrow> v)"
| "get v k = Inr JUndefined"

section \<open>Strings: \<^verbatim>\<open>trim\<close>, \<^verbatim>\<open>substring\<close>, \<^verbatim>\<open>encodeURIComponent\<close>\<close>

text \<open>
  The UTF-8 encodings of the code points \<^verbatim>\<open>String.prototype.trim\<close> removes:
  ECMAScript's WhiteSpace (TAB, VT, FF, SP, NBSP, ZWNBSP and the Unicode space
  separators) and LineTerminator (LF, CR, LS, PS).
\<close>

definition whitespace :: "string list" where
  "whitespace =
     [[CHR 0x09], [CHR 0x0A], [CHR 0x0B], [CHR 0x0C], [CHR 0x0D], [CHR 0x20],
      [CHR 0xC2, CHR 0xA0],
      [CHR 0xE1, CHR 0x9A, CHR 0x80],
      [CHR 0xE2, CHR 0x80, CHR 0x80], [CHR 0xE2, CHR 0x80, CHR 0x81],
      [CHR 0xE2, CHR 0x80, CHR 0x82], [CHR 0xE2, CHR 0x80, CHR 0x83],
      [CHR 0xE2, CHR 0x80, CHR 0x84], [CHR 0xE2, CHR 0x80, CHR 0x85],
      [CHR 0xE2, CHR 0x80, CHR 0x86], [CHR 0xE2, CHR 0x80, CHR 0x87],
      [CHR 0xE2, CHR 0x80, CHR 0x88], [CHR 0xE2, CHR 0x80, CHR 0x89],
      [CHR 0xE2, CHR 0x80, CHR 0x8A],
      [CHR 0xE2, CHR 0x80, CHR 0xA8], [CHR 0xE2, CHR 0x80, CHR 0xA9],
      [CHR 0xE2, CHR 0x80, CHR 0xAF],
      [CHR 0xE2, CHR 0x81, CHR 0x9F],
      [CHR 0xE3, CHR 0x80, CHR 0x80],
      [CHR 0xEF, CHR 0xBB, CHR 0xBF]]"

text \<open>Remove every leading occurrence of one of the given non-empty sequences.\<close>

function stripLeading :: "string list \<Rightarrow> string \<Rightarrow> string" where
  "stripLeading ws s =
     (case List.find (\<lambda>w. w \<noteq> [] \<and> take (length w) s = w) ws of
        None \<Rightarrow> s
      | Some w \<Rightarrow> stripLeading ws (drop (length w) s))"
  by pat_completeness auto
termination
proof (relation "measure (\<lambda>(ws, s). length s)")
  show "wf (measure (\<lambda>(ws, s). length s))" by simp
next
  fix ws :: "string list" and s w :: string
  assume "List.find (\<lambda>w. w \<noteq> [] \<and> take (length w) s = w) ws = Some w"
  then have w: "w \<noteq> []" "take (length w) s = w"
    by (auto simp: find_Some_iff)
  then have "s \<noteq> []" by auto
  with w show "((ws, drop (length w) s), (ws, s)) \<in> measure (\<lambda>(ws, s). length s)"
    by simp
qed

definition trimStart :: "string \<Rightarrow> string" where
  "trimStart s = stripLeading whitespace s"

definition trimEnd :: "string \<Rightarrow> string" where
  "trimEnd s = rev (stripLeading (map rev whitespace) (rev s))"

definition trim :: "string \<Rightarrow> string" where
  "trim s = trimEnd (trimStart s)"

text \<open>\<^verbatim>\<open>s.substring(n)\<close>: the text from index \<open>n\<close> on, empty when \<open>s\<close> is shorter.\<close>

definition substring :: "string \<Rightarrow> nat \<Rightarrow> string" where
  "substring s n = drop n s"

text \<open>
  \<^verbatim>\<open>encodeURIComponent\<close>: letters, digits and \<^verbatim>\<open>- _ . ! ~ * ' ( )\<close> are kept,
  every other byte of the UTF-8 form becomes \<^verbatim>\<open>%XX\<close> in upper-case hexadecimal.
  On a string that holds an unpaired surrogate it throws a \<^verbatim>\<open>URIError\<close>.
\<close>

fun loneSurrogate :: "string \<Rightarrow> bool" where
  "loneSurrogate (a # b # cs) =
     ((a = CHR 0xED \<and> (0xA0 :: nat) \<le> of_char b) \<or> loneSurrogate (b # cs))"
| "loneSurrogate cs = False"

definition unreserved :: "char \<Rightarrow> bool" where
  "unreserved c \<longleftrightarrow>
     c \<in> set (''ABCDEFGHIJKLMNOPQRSTUVWXYZabcdefghijklmnopqrstuvwxyz0123456789-_.!~*()'' @ [CHR 0x27])"

definition hexDigit :: "nat \<Rightarrow> char" where
  "hexDigit n = ''0123456789ABCDEF'' ! (n mod 16)"

definition encodeByte :: "char \<Rightarrow> string" where
  "encodeByte c =
     (if unreserved c then [c]
      else [CHR ''%'', hexDigit (of_char c div 16), hexDigit (of_char c mod 16)])"

definition encodeURIComponent :: "string \<Rightarrow> exn + string" where
  "encodeURIComponent s =
     (if loneSurrogate s then Inl (ErrorObj ''URI malformed'')
      else Inr (concat (map encodeByte s)))"

section \<open>Data model of the page\<close>

text \<open>
  The interfaces \<^verbatim>\<open>VideoFormat\<close> and \<^verbatim>\<open>VideoInfo\<close> (whose \<^verbatim>\<open>id\<close> is
  \<open>video_id\<close> here). A field the page tests for presence before use is optional:
  \<^verbatim>\<open>resolution\<close> (\<open>None\<close> is \<^verbatim>\<open>null\<close>) and \<^verbatim>\<open>formats\<close> (\<open>None\<close> is an
  absent or \<^verbatim>\<open>null\<close> property, which the guard of \<^verbatim>\<open>getQualityFormats\<close> allows
  for).
\<close>

record VideoFormat =
  format_id :: string
  format_note :: string
  ext :: string
  resolution :: "string option"
  filesize :: "nat option"
  acodec :: string
  vcodec :: string

record VideoInfo =
  video_id :: string
  title :: string
  thumbnail :: string
  duration :: nat
  uploader :: string
  formats :: "VideoFormat list option"

text \<open>
  The component's state (its \<^verbatim>\<open>useState\<close> cells). \<open>downloadProgress\<close> is
  \<^verbatim>\<open>null\<close> or an object; the message handler spreads received JSON into it, so
  its properties are untyped.
\<close>

type_synonym props = "(string \<times> jsval) list"

record app_state =
  url :: string
  loading :: bool
  videoInfo :: "VideoInfo option"
  error :: "string option"
  selectedFormat :: string
  downloading :: bool
  downloadProgress :: "props option"

text \<open>
  What a handler does, in program order: calls of the state setters and of the
  browser. \<open>MergeDownloadProgress d\<close> is the functional update
  \<^verbatim>\<open>setDownloadProgress(prev => ({ ...prev, ...d }))\<close>; \<open>SetTimeout ms\<close> registers
  the page's only timer callback, \<^verbatim>\<open>() => setDownloadProgress(null)\<close>.
\<close>

datatype action =
    SetLoading bool
  | SetVideoInfo "VideoInfo option"
  | SetError "string option"
  | SetDownloading bool
  | SetDownloadProgress "props option"
  | MergeDownloadProgress props
  | MathRandom
  | NewWebSocket string
  | CloseWebSocket
  | Fetch string
  | Navigate string
  | SetTimeout nat
  | ConsoleError

text \<open>Object spread \<^verbatim>\<open>{ ...prev, ...d }\<close>: a key of \<open>d\<close> replaces the value in place
  or is appended.\<close>

fun setProp :: "string \<Rightarrow> jsval \<Rightarrow> props \<Rightarrow> props" where
  "setProp k v [] = [(k, v)]"
| "setProp k v (p # ps) = (if fst p = k then (k, v) # ps else p # setProp k v ps)"

definition spread :: "props option \<Rightarrow> props \<Rightarrow> props" where
  "spread prev d =
     foldl (\<lambda>acc (k, v). setProp k v acc) (case prev of None \<Rightarrow> [] | Some ps \<Rightarrow> ps) d"

fun perform :: "action \<Rightarrow> app_state \<Rightarrow> app_state" where
  "perform (SetLoading b) s = s\<lparr>loading := b\<rparr>"
| "perform (SetVideoInfo v) s = s\<lparr>videoInfo := v\<rparr>"
| "perform (SetError e) s = s\<lparr>error := e\<rparr>"
| "perform (SetDownloading b) s = s\<lparr>downloading := b\<rparr>"
| "perform (SetDownloadProgress p) s = s\<lparr>downloadProgress := p\<rparr>"
| "perform (MergeDownloadProgress d) s =
     s\<lparr>downloadProgress := Some (spread (downloadProgress s) d)\<rparr>"
| "perform a s = s"

definition run :: "app_state \<Rightarrow> action list \<Rightarrow> app_state" where
  "run s acts = foldl (\<lambda>s a. perform a s) s acts"

section \<open>Server addresses\<close>

text \<open>
  \<^verbatim>\<open>API_BASE = import.meta.env.VITE_API_URL || "http://localhost:8000"\<close> and
  \<^verbatim>\<open>WS_BASE = API_BASE.replace(/^http/, "ws")\<close>; the build-time variable is a
  parameter.
\<close>

definition API_BASE :: "string option \<Rightarrow> string" where
  "API_BASE VITE_API_URL =
     (case VITE_API_URL of
        None \<Rightarrow> ''http://localhost:8000''
      | Some v \<Rightarrow> if v = [] then ''http://localhost:8000'' else v)"

definition WS_BASE :: "string option \<Rightarrow> string" where
  "WS_BASE VITE_API_URL =
     (let b = API_BASE VITE_API_URL
      in if take 4 b = ''http'' then ''ws'' @ drop 4 b else b)"

section \<open>The browser\<close>

text \<open>
  Two operations of the browser throw when they are given an address it cannot use;
  which addresses those are is the browser's URL parser's to say, so both are
  parameters: \<open>socketError b u\<close> is what \<^verbatim>\<open>new WebSocket(u)\<close> throws, and
  \<open>hrefError b u\<close> what the assignment \<^verbatim>\<open>window.location.href = u\<close> throws
  (\<open>None\<close>: nothing, the operation succeeds).
\<close>

record browser =
  socketError :: "string \<Rightarrow> exn option"
  hrefError :: "string \<Rightarrow> exn option"

section \<open>Responses\<close>

text \<open>
  How \<^verbatim>\<open>await fetch(..)\<close> followed by \<^verbatim>\<open>await response.json()\<close> can end:
  \<^verbatim>\<open>fetch\<close> rejects; \<^verbatim>\<open>json()\<close> rejects (the flag is \<^verbatim>\<open>response.ok\<close>); or a
  body arrives, with \<^verbatim>\<open>response.ok\<close> false or true. The body of an OK response
  has the type the caller stores it at.
\<close>

datatype 'a response =
    FetchRejected exn
  | JsonRejected bool exn
  | NotOk jsval
  | IsOk 'a

text \<open>\<^verbatim>\<open>x || fallback\<close>, and what \<^verbatim>\<open>throw new Error(x)\<close> throws: the new error
  with the string form of \<open>x\<close> as its message, or the exception of that conversion.\<close>

definition orElse :: "jsval \<Rightarrow> jsval \<Rightarrow> jsval" where
  "orElse x fallback = (if truthy x then x else fallback)"

definition throwNewError :: "jsval \<Rightarrow> exn" where
  "throwNewError x = (case toString x of Inl e \<Rightarrow> e | Inr m \<Rightarrow> ErrorObj m)"

section \<open>\<^verbatim>\<open>fetchVideoInfo\<close>\<close>

text \<open>The \<^verbatim>\<open>try\<close> block once the request has been issued, and the \<^verbatim>\<open>catch\<close>
  block.\<close>

definition infoTry :: "VideoInfo option response \<Rightarrow> exn + action list" where
  "infoTry r =
     (case r of
        FetchRejected e \<Rightarrow> Inl e
      | JsonRejected ok e \<Rightarrow> Inl e
      | NotOk d \<Rightarrow>
          (case get d ''detail'' of
             Inl e \<Rightarrow> Inl e
           | Inr detail \<Rightarrow>
               Inl (throwNewError (orElse detail (JStr ''Failed to fetch video info''))))
      | IsOk v \<Rightarrow> Inr [SetVideoInfo v])"

definition infoCatch :: "exn \<Rightarrow> action list" where
  "infoCatch err =
     [SetError (Some (case err of ErrorObj m \<Rightarrow> m | NonError \<Rightarrow> ''An error occurred''))]"

definition fetchVideoInfo ::
  "string option \<Rightarrow> app_state \<Rightarrow> VideoInfo option response \<Rightarrow> action list" where
  "fetchVideoInfo env c r =
     (if trim (url c) = [] then [SetError (Some ''Please enter a YouTube URL'')]
      else
        [SetLoading True, SetError None, SetVideoInfo None]
        @ (case encodeURIComponent (url c) of
             Inl err \<Rightarrow> infoCatch err
           | Inr u \<Rightarrow>
               [Fetch (API_BASE env @ ''/api/info?url='' @ u)]
               @ (case infoTry r of Inl err \<Rightarrow> infoCatch err | Inr acts \<Rightarrow> acts))
        @ [SetLoading False])"

section \<open>\<^verbatim>\<open>getQualityFormats\<close>\<close>

definition getQualityFormats :: "VideoInfo option \<Rightarrow> VideoFormat list" where
  "getQualityFormats vi =
     (case vi of
        None \<Rightarrow> []
      | Some v \<Rightarrow>
          (case formats v of
             None \<Rightarrow> []
           | Some fs \<Rightarrow>
               take 8
                 (filter
                    (\<lambda>f. (case resolution f of None \<Rightarrow> False | Some r \<Rightarrow> r \<noteq> [])
                         \<and> resolution f \<noteq> Some ''audio only'')
                    fs)))"

section \<open>\<^verbatim>\<open>handleDownload\<close>\<close>

text \<open>
  An event on the progress socket while the download request is pending:
  \<open>Unparsable\<close> is a message on which \<^verbatim>\<open>JSON.parse\<close> throws, \<open>Message d\<close> one
  that parses to \<open>d\<close>, \<open>SocketError\<close> the socket's error event. An exception thrown
  inside a handler ends the handler and nothing else.
\<close>

datatype socket_event = Unparsable | Message jsval | SocketError

definition onmessage :: "jsval \<Rightarrow> action list" where
  "onmessage d =
     (case get d ''status'' of
        Inl e \<Rightarrow> []
      | Inr st \<Rightarrow>
          if st = JStr ''downloading'' \<or> st = JStr ''finished''
          then [MergeDownloadProgress (case d of JObj kvs \<Rightarrow> kvs | _ \<Rightarrow> [])]
          else [])"

definition onerror :: "action list" where
  "onerror = [ConsoleError]"

fun socketEvent :: "socket_event \<Rightarrow> action list" where
  "socketEvent Unparsable = []"
| "socketEvent (Message d) = onmessage d"
| "socketEvent SocketError = onerror"

text \<open>The two literal progress objects.\<close>

definition progressStarting :: props where
  "progressStarting =
     [(''percent'', JNum ''0''), (''speed'', JNum ''0''), (''eta'', JNum ''0''),
      (''status'', JStr ''starting'')]"

definition progressCompleted :: props where
  "progressCompleted =
     [(''percent'', JNum ''100''), (''speed'', JNum ''0''), (''eta'', JNum ''0''),
      (''status'', JStr ''completed'')]"

text \<open>
  The token: \<^verbatim>\<open>Math.random().toString(36).substring(7)\<close>. The argument is the
  base-36 rendering of the drawn number, \<^verbatim>\<open>Math.random().toString(36)\<close>: for the
  draw \<open>0\<close> it is \<^verbatim>\<open>"0"\<close>, for \<open>0.5\<close> it is \<^verbatim>\<open>"0.i"\<close>, and for most draws
  \<^verbatim>\<open>"0."\<close> followed by ten or so digits.
\<close>

definition clientId :: "string \<Rightarrow> string" where
  "clientId rendering = substring rendering 7"

text \<open>
  The \<^verbatim>\<open>try\<close> block after the request has been issued: what it does, and the
  exception that ends it, if one does. On the success path the progress is set first;
  the template literal then converts \<^verbatim>\<open>data.download_url\<close> to a string and the
  result is assigned to \<^verbatim>\<open>window.location.href\<close>, and either step can throw.
\<close>

definition downloadTry ::
  "string option \<Rightarrow> browser \<Rightarrow> jsval response \<Rightarrow> action list \<times> exn option" where
  "downloadTry env b r =
     (case r of
        FetchRejected e \<Rightarrow> ([], Some e)
      | JsonRejected ok e \<Rightarrow> ([], Some e)
      | NotOk d \<Rightarrow>
          (case get d ''detail'' of
             Inl e \<Rightarrow> ([], Some e)
           | Inr detail \<Rightarrow> ([], Some (throwNewError (orElse detail (JStr ''Download failed'')))))
      | IsOk d \<Rightarrow>
          (case get d ''status'' of
             Inl e \<Rightarrow> ([], Some e)
           | Inr st \<Rightarrow>
               (case get d ''download_url'' of
                  Inl e \<Rightarrow> ([], Some e)
                | Inr download_url \<Rightarrow>
                    if st = JStr ''success'' \<and> truthy download_url
                    then
                      (case toString download_url of
                         Inl e \<Rightarrow> ([SetDownloadProgress (Some progressCompleted)], Some e)
                       | Inr u \<Rightarrow>
                           (case hrefError b (API_BASE env @ u) of
                              Some e \<Rightarrow> ([SetDownloadProgress (Some progressCompleted)], Some e)
                            | None \<Rightarrow>
                                ([SetDownloadProgress (Some progressCompleted),
                                  Navigate (API_BASE env @ u)], None)))
                    else ([], Some (throwNewError (JStr ''Download failed - invalid response''))))))"

text \<open>The \<^verbatim>\<open>catch\<close> block, the \<^verbatim>\<open>try\<close>/\<^verbatim>\<open>catch\<close> statement once the request
  has been issued, and the \<^verbatim>\<open>finally\<close> block. The test \<^verbatim>\<open>!error\<close> reads the
  value the handler closed over.\<close>

definition downloadCatch :: "exn \<Rightarrow> action list" where
  "downloadCatch err =
     [SetError (Some (case err of ErrorObj m \<Rightarrow> m | NonError \<Rightarrow> ''Download failed'')),
      SetDownloadProgress None]"

definition downloadSettle :: "string option \<Rightarrow> browser \<Rightarrow> jsval response \<Rightarrow> action list" where
  "downloadSettle env b r =
     (case downloadTry env b r of
        (acts, None) \<Rightarrow> acts
      | (acts, Some err) \<Rightarrow> acts @ downloadCatch err)"

definition downloadFinally :: "app_state \<Rightarrow> action list" where
  "downloadFinally c =
     [SetDownloading False, CloseWebSocket]
     @ (if error c = None \<or> error c = Some [] then [SetTimeout 3000] else [])"

text \<open>
  \<open>handleDownload env b c rendering evs r\<close>: \<open>c\<close> holds the values the handler
  closed over (the state of the render that created it), \<open>rendering\<close> is what
  \<^verbatim>\<open>Math.random().toString(36)\<close> returns, \<open>evs\<close> are the socket events that arrive
  while the request is pending, and \<open>r\<close> is how the request ends. The socket is
  constructed outside the \<^verbatim>\<open>try\<close>: when the constructor throws, the handler ends
  there. \<^verbatim>\<open>encodeURIComponent(url)\<close> is evaluated inside the \<^verbatim>\<open>try\<close>, before the
  request: when it throws, no request is issued and nothing is awaited, so no socket
  event is handled before the \<^verbatim>\<open>catch\<close> and \<^verbatim>\<open>finally\<close> blocks run.
\<close>

definition handleDownload ::
  "string option \<Rightarrow> browser \<Rightarrow> app_state \<Rightarrow> string \<Rightarrow> socket_event list \<Rightarrow> jsval response
     \<Rightarrow> action list" where
  "handleDownload env b c rendering evs r =
     (if videoInfo c = None then []
      else
        [SetDownloading True, SetError None, SetDownloadProgress (Some progressStarting),
         MathRandom]
        @ (case socketError b (WS_BASE env @ ''/api/ws/'' @ clientId rendering) of
             Some err \<Rightarrow> []
           | None \<Rightarrow>
               [NewWebSocket (WS_BASE env @ ''/api/ws/'' @ clientId rendering)]
               @ (case encodeURIComponent (url c) of
                    Inl err \<Rightarrow> downloadCatch err
                  | Inr u \<Rightarrow>
                      [Fetch (API_BASE env @ ''/api/download?url='' @ u
                              @ ''&format_id='' @ selectedFormat c
                              @ ''&client_id='' @ clientId rendering)]
                      @ concat (map socketEvent evs)
                      @ downloadSettle env b r)
               @ downloadFinally c))"

text \<open>The timer callback registered by \<open>SetTimeout\<close>.\<close>

definition progressTimeout :: "action list" where
  "progressTimeout = [SetDownloadProgress None]"

section \<open>Observations on a handler's actions\<close>

text \<open>The addresses requested, the socket addresses opened and the navigations, in order.\<close>

definition requests :: "action list \<Rightarrow> string list" where
  "requests acts = concat (map (\<lambda>a. case a of Fetch u \<Rightarrow> [u] | _ \<Rightarrow> []) acts)"

definition sockets :: "action list \<Rightarrow> string list" where
  "sockets acts = concat (map (\<lambda>a. case a of NewWebSocket u \<Rightarrow> [u] | _ \<Rightarrow> []) acts)"

definition navigations :: "action list \<Rightarrow> string list" where
  "navigations acts = concat (map (\<lambda>a. case a of Navigate u \<Rightarrow> [u] | _ \<Rightarrow> []) acts)"

section \<open>The interface as the specification words it\<close>

text \<open>
  The specification's section 6 names the three addresses \<^verbatim>\<open>/info?url=..\<close>,
  \<^verbatim>\<open>/ws/{token}\<close> and \<^verbatim>\<open>/download?url=..&formatId=..&token=..\<close>, and the success
  body \<^verbatim>\<open>{status:"success", filename, downloadUrl}\<close>. These definitions follow
  those words, for comparison with what the page sends and reads.
\<close>

definition specInfoRequest :: "string \<Rightarrow> string \<Rightarrow> string" where
  "specInfoRequest base u = base @ ''/info?url='' @ u"

definition specChannel :: "string \<Rightarrow> string \<Rightarrow> string" where
  "specChannel base token = base @ ''/ws/'' @ token"

definition specDownloadRequest :: "string \<Rightarrow> string \<Rightarrow> string \<Rightarrow> string \<Rightarrow> string" where
  "specDownloadRequest base u formatId token =
     base @ ''/download?url='' @ u @ ''&formatId='' @ formatId @ ''&token='' @ token"

definition specSuccessBody :: jsval where
  "specSuccessBody =
     JObj [(''status'', JStr ''success''), (''filename'', JStr ''video.mp4''),
           (''downloadUrl'', JStr ''/files/video.mp4'')]"

section \<open>Sample inputs\<close>

definition mkFormat :: "string \<Rightarrow> string option \<Rightarrow> VideoFormat" where
  "mkFormat i r =
     \<lparr>format_id = i, format_note = [], ext = ''mp4'', resolution = r, filesize = None,
      acodec = ''none'', vcodec = ''avc1''\<rparr>"

definition sampleFormats :: "VideoFormat list" where
  "sampleFormats =
     [mkFormat ''139'' (Some ''audio only''), mkFormat ''sb0'' None, mkFormat ''160'' (Some ''256x144''),
      mkFormat ''133'' (Some ''426x240''), mkFormat ''x'' (Some []), mkFormat ''134'' (Some ''640x360''),
      mkFormat ''135'' (Some ''854x480''), mkFormat ''136'' (Some ''1280x720''),
      mkFormat ''137'' (Some ''1920x1080''), mkFormat ''271'' (Some ''2560x1440''),
      mkFormat ''313'' (Some ''3840x2160''), mkFormat ''140'' (Some ''audio only''),
      mkFormat ''18'' (Some ''640x360''), mkFormat ''22'' (Some ''1280x720'')]"

definition sampleInfo :: VideoInfo where
  "sampleInfo =
     \<lparr>video_id = ''abc'', title = ''A video'', thumbnail = ''https://i.example/abc.jpg'',
      duration = 212, uploader = ''Someone'', formats = Some sampleFormats\<rparr>"

text \<open>The state of the first render (the arguments of the \<^verbatim>\<open>useState\<close> calls).\<close>

definition initialState :: app_state where
  "initialState =
     \<lparr>url = [], loading = False, videoInfo = None, error = None, selectedFormat = ''best'',
      downloading = False, downloadProgress = None\<rparr>"

definition loadedState :: app_state where
  "loadedState = initialState\<lparr>url := ''https://youtu.be/abc'', videoInfo := Some sampleInfo\<rparr>"

definition successBody :: jsval where
  "successBody =
     JObj [(''status'', JStr ''success''), (''filename'', JStr ''video.mp4''),
           (''download_url'', JStr ''/files/video.mp4'')]"



text \<open>The loaded page after the user has changed the url field to a text that ends in
  an unpaired surrogate (U+D800).\<close>

definition surrogateState :: app_state where
  "surrogateState = loadedState\<lparr>url := ''https://youtu.be/abc'' @ [CHR 0xED, CHR 0xA0, CHR 0x80]\<rparr>"

text \<open>
  A browser, as far as the addresses of the samples go. The socket constructor throws
  a \<^verbatim>\<open>SyntaxError\<close> unless the address starts with \<^verbatim>\<open>ws://\<close> or \<^verbatim>\<open>wss://\<close>.
  The \<^verbatim>\<open>href\<close> setter throws one when the address does not parse; for an address
  \<^verbatim>\<open>http://host:port...\<close> the URL parser fails unless what stands between the
  colon and the next \<^verbatim>\<open>/\<close>, \<^verbatim>\<open>?\<close> or \<^verbatim>\<open>#\<close> is a number below 65536, and that
  is the check made here.
\<close>

definition httpPort :: "string \<Rightarrow> string option" where
  "httpPort u =
     (if take 7 u = ''http://''
      then (let authority = takeWhile (\<lambda>c. c \<notin> set ''/?#'') (drop 7 u)
            in if CHR '':'' \<in> set authority
               then Some (tl (dropWhile (\<lambda>c. c \<noteq> CHR '':'') authority))
               else None)
      else None)"

definition portNumber :: "string \<Rightarrow> nat option" where
  "portNumber p =
     (if list_all (\<lambda>c. c \<in> set ''0123456789'') p
      then Some (foldl (\<lambda>n c. 10 * n + (of_char c - 48)) 0 p)
      else None)"

definition sampleBrowser :: browser where
  "sampleBrowser =
     \<lparr>socketError =
        (\<lambda>u. if take 5 u = ''ws://'' \<or> take 6 u = ''wss://'' then None
              else Some (ErrorObj (''The URL '' @ u @ '' is invalid.''))),
      hrefError =
        (\<lambda>u. case httpPort u of
                None \<Rightarrow> None
              | Some p \<Rightarrow>
                  (case portNumber p of
                     None \<Rightarrow> Some (ErrorObj (u @ '' is not a valid URL.''))
                   | Some n \<Rightarrow>
                       if n < 65536 then None
                       else Some (ErrorObj (u @ '' is not a valid URL.''))))\<rparr>"

section \<open>Server side: progress events, registry and orchestrator\<close>

text \<open>
  The server (\<^verbatim>\<open>backend/main.py\<close>) is not among the sources at hand; the page is its
  only client. What follows is modelled from the specification's sections 3, 4.2, 4.3
  and 5.
\<close>

text \<open>Modelled from the spec: the \<^verbatim>\<open>ProgressEvent\<close> of section 3,
  \<^verbatim>\<open>{status: one of {starting, downloading, finished, error}, percent, speedBytesPerSec,
  etaSeconds}\<close>. Sections 4.3 and 7 have the terminal \<^verbatim>\<open>error\<close> event carry the
  reason of the failure, so the record has a fifth field for it, \<open>None\<close> in every
  other event.\<close>

datatype event_status = StatusStarting | StatusDownloading | StatusFinished | StatusError

record ProgressEvent =
  status :: event_status
  percent :: nat
  speedBytesPerSec :: nat
  etaSeconds :: nat
  reason :: "string option"


text \<open>Modelled from the spec: the Registry of section 4.2, a table from client token to
  sink. \<^verbatim>\<open>attach\<close> replaces any earlier sink of the token, \<^verbatim>\<open>detach\<close> removes it,
  \<^verbatim>\<open>publish\<close> delivers to the registered sink and drops the event when there is
  none. A delivery is the pair of the sink and the event.\<close>

type_synonym token = string

type_synonym sink = nat





text \<open>Modelled from the spec: the registry operations are atomic per token (sections 4.2
  and 5), so a run of the server is a sequence of them; its deliveries, what one sink
  receives, in order, and the registry it leaves.\<close>

datatype registry_op = Attach token sink | Detach token | Publish token ProgressEvent





text \<open>Modelled from the spec: the extraction engine as the Orchestrator sees it
  (section 4.3): the progress it reports through the hook, then a file or an error.\<close>

record progress_report =
  reportPercent :: nat
  reportSpeed :: nat
  reportEta :: nat

datatype engine_result = FileResult string | EngineError string

text \<open>Modelled from the spec: the Orchestrator's \<^verbatim>\<open>download\<close> of section 4.3. Each
  report is translated into a \<^verbatim>\<open>downloading\<close> event and published under the job's
  token; then one terminal event is published, \<^verbatim>\<open>finished\<close> after a file and
  \<^verbatim>\<open>error\<close> after a failure, and the result is returned. Section 3 bounds the
  percent of an event by 100 and wants it non-decreasing over the whole sequence of a
  job, the terminal event included: the translation caps the reported percent at 100,
  a \<^verbatim>\<open>finished\<close> event carries 100, and an \<^verbatim>\<open>error\<close> event carries the percent
  of the last event published before it (0 when there is none) and the reason that is
  in the result.\<close>

definition translate :: "progress_report \<Rightarrow> ProgressEvent" where
  "translate r =
     \<lparr>status = StatusDownloading, percent = min 100 (reportPercent r),
      speedBytesPerSec = reportSpeed r, etaSeconds = reportEta r, reason = None\<rparr>"

definition progressEvents :: "progress_report list \<Rightarrow> ProgressEvent list" where
  "progressEvents reports = map translate reports"

definition terminalEvent :: "ProgressEvent list \<Rightarrow> engine_result \<Rightarrow> ProgressEvent" where
  "terminalEvent evs res =
     (case res of
        FileResult f \<Rightarrow>
          \<lparr>status = StatusFinished, percent = 100, speedBytesPerSec = 0, etaSeconds = 0,
           reason = None\<rparr>
      | EngineError m \<Rightarrow>
          \<lparr>status = StatusError, percent = (if evs = [] then 0 else percent (last evs)),
           speedBytesPerSec = 0, etaSeconds = 0, reason = Some m\<rparr>)"

definition downloadEvents :: "progress_report list \<Rightarrow> engine_result \<Rightarrow> ProgressEvent list" where
  "downloadEvents reports res =
     progressEvents reports @ [terminalEvent (progressEvents reports) res]"

definition download ::
  "token \<Rightarrow> progress_report list \<Rightarrow> engine_result \<Rightarrow> registry_op list \<times> engine_result" where
  "download t reports res = (map (Publish t) (downloadEvents reports res), res)"






section \<open>Running a list of actions\<close>

lemma run_append: "run s (xs @ ys) = run (run s xs) ys"
  by (simp add: run_def)

lemma run_Cons: "run s (a # xs) = run (perform a s) xs"
  by (simp add: run_def)

lemma run_Nil: "run s [] = s"
  by (simp add: run_def)

section \<open>What the socket handlers can do\<close>

text \<open>A socket event leaves every state cell but \<open>downloadProgress\<close> alone, and
  issues no request, opens no socket and navigates nowhere.\<close>

lemma onmessage_cases:
  "onmessage d = [] \<or> (\<exists>kvs. onmessage d = [MergeDownloadProgress kvs])"
  by (simp add: onmessage_def split: sum.splits)

lemma socketEvent_cases:
  "socketEvent ev = [] \<or> socketEvent ev = [ConsoleError]
     \<or> (\<exists>kvs. socketEvent ev = [MergeDownloadProgress kvs])"
  using onmessage_cases by (cases ev) (auto simp: onerror_def)

lemma socketEvent_run:
  "run s (socketEvent ev) = s\<lparr>downloadProgress := downloadProgress (run s (socketEvent ev))\<rparr>"
  using socketEvent_cases [of ev] by (auto simp: run_Cons run_Nil)

lemma socketEvents_run:
  "run s (concat (map socketEvent evs))
     = s\<lparr>downloadProgress := downloadProgress (run s (concat (map socketEvent evs)))\<rparr>"
proof (induction evs arbitrary: s)
  case Nil
  show ?case by (simp add: run_Nil)
next
  case (Cons ev evs)
  let ?s1 = "run s (socketEvent ev)"
  let ?s2 = "run ?s1 (concat (map socketEvent evs))"
  have run: "run s (concat (map socketEvent (ev # evs))) = ?s2"
    by (simp add: run_append)
  have "?s2 = ?s1\<lparr>downloadProgress := downloadProgress ?s2\<rparr>"
    using Cons.IH .
  also have "\<dots> = (s\<lparr>downloadProgress := downloadProgress ?s1\<rparr>)\<lparr>downloadProgress := downloadProgress ?s2\<rparr>"
    using socketEvent_run [of s ev] by simp
  also have "\<dots> = s\<lparr>downloadProgress := downloadProgress ?s2\<rparr>"
    by simp
  finally show ?case
    unfolding run .
qed

lemma socketEvents_set:
  "a \<in> set (concat (map socketEvent evs)) \<Longrightarrow>
     a = ConsoleError \<or> (\<exists>kvs. a = MergeDownloadProgress kvs)"
proof (induction evs)
  case Nil
  then show ?case by simp
next
  case (Cons ev evs)
  then show ?case
    using socketEvent_cases [of ev] by auto
qed

lemma requests_append: "requests (xs @ ys) = requests xs @ requests ys"
  by (simp add: requests_def)

lemma sockets_append: "sockets (xs @ ys) = sockets xs @ sockets ys"
  by (simp add: sockets_def)

lemma navigations_append: "navigations (xs @ ys) = navigations xs @ navigations ys"
  by (simp add: navigations_def)

lemma sockets_member: "NewWebSocket w \<in> set acts \<longleftrightarrow> w \<in> set (sockets acts)"
  by (induction acts) (auto simp: sockets_def split: action.splits)

lemma socketEvents_silent:
  "requests (concat (map socketEvent evs)) = []"
  "sockets (concat (map socketEvent evs)) = []"
  "navigations (concat (map socketEvent evs)) = []"
  using socketEvents_set [of _ evs]
  by (auto simp: requests_def sockets_def navigations_def split: action.splits)

lemma socketEvents_count:
  "count_list (concat (map socketEvent evs)) MathRandom = 0"
  "count_list (concat (map socketEvent evs)) CloseWebSocket = 0"
  using socketEvents_set [of _ evs] by (auto simp: count_list_0_iff)

section \<open>The parts of \<^verbatim>\<open>handleDownload\<close>\<close>

text \<open>The \<^verbatim>\<open>try\<close> block ends in one of three ways: an exception before the
  progress is set, an exception after it (thrown by the string conversion of
  \<^verbatim>\<open>download_url\<close> or by the assignment to \<^verbatim>\<open>window.location.href\<close>), or the
  navigation. What the engine throws is always an \<^verbatim>\<open>Error\<close> instance.\<close>

lemma toString_throws:
  "toString v \<noteq> Inl NonError"
  "toStrings vs \<noteq> Inl NonError"
  by (induction v and vs rule: toString_toStrings.induct) (auto split: sum.splits)

lemma get_throws: "get v k \<noteq> Inl NonError"
  by (cases v) (simp_all add: typeError_def)

lemma downloadTry_cases:
  "(\<exists>e. downloadTry env b r = ([], Some e))
   \<or> (\<exists>e. downloadTry env b r = ([SetDownloadProgress (Some progressCompleted)], Some e))
   \<or> (\<exists>x. downloadTry env b r
          = ([SetDownloadProgress (Some progressCompleted), Navigate x], None))"
  by (auto simp: downloadTry_def split: response.splits sum.splits option.splits)




lemma downloadTry_invalid:
  assumes "get d ''status'' = Inr JUndefined \<or> get d ''download_url'' = Inr JUndefined"
  shows "downloadTry env b (IsOk d)
       = ([], Some (ErrorObj ''Download failed - invalid response''))"
  using assms
  by (cases d) (auto simp: downloadTry_def throwNewError_def split: sum.splits option.splits)

lemma downloadTry_not_ok:
  "downloadTry env b (NotOk d)
     = ([], Some (case get d ''detail'' of
                    Inl x \<Rightarrow> x
                  | Inr detail \<Rightarrow>
                      if truthy detail
                      then (case toString detail of Inl x \<Rightarrow> x | Inr m \<Rightarrow> ErrorObj m)
                      else ErrorObj ''Download failed''))"
  by (simp add: downloadTry_def throwNewError_def orElse_def split: sum.splits)

lemma downloadTry_rejected:
  "downloadTry env b (JsonRejected ok e) = ([], Some e)"
  "downloadTry env b (FetchRejected e) = ([], Some e)"
  by (simp_all add: downloadTry_def)

lemma downloadTry_reads:
  assumes "get d ''status'' = get d2 ''status''"
    and "get d ''download_url'' = get d2 ''download_url''"
  shows "downloadTry env b (IsOk d) = downloadTry env b (IsOk d2)"
  using assms by (auto simp: downloadTry_def split: sum.splits)

lemma downloadSettle_thrown:
  "downloadTry env b r = (acts, Some e) \<Longrightarrow> downloadSettle env b r = acts @ downloadCatch e"
  by (simp add: downloadSettle_def)


lemma downloadSettle_set:
  "a \<in> set (downloadSettle env b r) \<Longrightarrow>
     (\<exists>e. a = SetError e) \<or> (\<exists>p. a = SetDownloadProgress p) \<or> (\<exists>x. a = Navigate x)"
  using downloadTry_cases [of env b r]
  by (auto simp: downloadSettle_def downloadCatch_def)

lemma downloadCatch_set:
  "a \<in> set (downloadCatch e) \<Longrightarrow> (\<exists>m. a = SetError m) \<or> (\<exists>p. a = SetDownloadProgress p)"
  by (auto simp: downloadCatch_def)

lemma downloadSettle_silent:
  "requests (downloadSettle env b r) = []"
  "sockets (downloadSettle env b r) = []"
  using downloadSettle_set [of _ env b r]
  by (auto simp: requests_def sockets_def split: action.splits)

lemma downloadSettle_count:
  "count_list (downloadSettle env b r) MathRandom = 0"
  "count_list (downloadSettle env b r) CloseWebSocket = 0"
  using downloadSettle_set [of _ env b r] by (auto simp: count_list_0_iff)

lemma downloadCatch_silent:
  "requests (downloadCatch e) = []"
  "sockets (downloadCatch e) = []"
  "navigations (downloadCatch e) = []"
  "count_list (downloadCatch e) MathRandom = 0"
  "count_list (downloadCatch e) CloseWebSocket = 0"
  by (simp_all add: downloadCatch_def requests_def sockets_def navigations_def)

lemma downloadCatch_run:
  "run s (downloadCatch e)
     = s\<lparr>error := Some (case e of ErrorObj m \<Rightarrow> m | NonError \<Rightarrow> ''Download failed''),
         downloadProgress := None\<rparr>"
  by (simp add: downloadCatch_def run_def)

lemma downloadSettle_run_thrown:
  assumes "downloadTry env b r = (acts, Some e)"
  shows "run s (downloadSettle env b r)
     = s\<lparr>error := Some (case e of ErrorObj m \<Rightarrow> m | NonError \<Rightarrow> ''Download failed''),
         downloadProgress := None\<rparr>"
  using assms downloadTry_cases [of env b r]
  by (auto simp: downloadSettle_def run_append downloadCatch_run) (simp_all add: run_def)

lemma downloadSettle_navigations_thrown:
  assumes "downloadTry env b r = (acts, Some e)"
  shows "navigations (downloadSettle env b r) = []"
  using assms downloadTry_cases [of env b r]
  by (auto simp: downloadSettle_def navigations_append downloadCatch_silent)
    (simp_all add: navigations_def)


lemma downloadFinally_set:
  "a \<in> set (downloadFinally c) \<Longrightarrow>
     a = SetDownloading False \<or> a = CloseWebSocket \<or> a = SetTimeout 3000"
  by (auto simp: downloadFinally_def split: if_splits)

lemma downloadFinally_run: "run s (downloadFinally c) = s\<lparr>downloading := False\<rparr>"
  by (simp add: downloadFinally_def run_def)

lemma downloadFinally_silent:
  "requests (downloadFinally c) = []"
  "sockets (downloadFinally c) = []"
  "navigations (downloadFinally c) = []"
  "count_list (downloadFinally c) MathRandom = 0"
  "count_list (downloadFinally c) CloseWebSocket = 1"
  by (simp_all add: downloadFinally_def requests_def sockets_def navigations_def)

text \<open>The four shapes of an invocation: stopped at the guard, stopped by the socket
  constructor, stopped by \<^verbatim>\<open>encodeURIComponent\<close>, and with the request issued.\<close>

lemma handleDownload_guard:
  "videoInfo c = None \<Longrightarrow> handleDownload env b c rendering evs r = []"
  by (simp add: handleDownload_def)

lemma handleDownload_no_socket:
  assumes "videoInfo c \<noteq> None"
    and "socketError b (WS_BASE env @ ''/api/ws/'' @ clientId rendering) = Some e"
  shows "handleDownload env b c rendering evs r
       = [SetDownloading True, SetError None, SetDownloadProgress (Some progressStarting),
          MathRandom]"
proof -
  from assms(1) obtain v where "videoInfo c = Some v" by blast
  then show ?thesis using assms(2) by (simp add: handleDownload_def)
qed

lemma handleDownload_malformed:
  assumes "videoInfo c \<noteq> None"
    and "socketError b (WS_BASE env @ ''/api/ws/'' @ clientId rendering) = None"
    and "encodeURIComponent (url c) = Inl e"
  shows "handleDownload env b c rendering evs r
       = [SetDownloading True, SetError None, SetDownloadProgress (Some progressStarting),
          MathRandom, NewWebSocket (WS_BASE env @ ''/api/ws/'' @ clientId rendering)]
         @ downloadCatch e
         @ downloadFinally c"
proof -
  from assms(1) obtain v where "videoInfo c = Some v" by blast
  then show ?thesis using assms(2,3) by (simp add: handleDownload_def)
qed

lemma handleDownload_issued:
  assumes "videoInfo c \<noteq> None"
    and "socketError b (WS_BASE env @ ''/api/ws/'' @ clientId rendering) = None"
    and "encodeURIComponent (url c) = Inr q"
  shows "handleDownload env b c rendering evs r
       = [SetDownloading True, SetError None, SetDownloadProgress (Some progressStarting),
          MathRandom, NewWebSocket (WS_BASE env @ ''/api/ws/'' @ clientId rendering),
          Fetch (API_BASE env @ ''/api/download?url='' @ q
                 @ ''&format_id='' @ selectedFormat c
                 @ ''&client_id='' @ clientId rendering)]
         @ concat (map socketEvent evs)
         @ downloadSettle env b r
         @ downloadFinally c"
proof -
  from assms(1) obtain v where "videoInfo c = Some v" by blast
  then show ?thesis using assms(2,3) by (simp add: handleDownload_def)
qed

lemma prelude_run:
  "run s [SetDownloading True, SetError None, SetDownloadProgress (Some p), MathRandom,
          NewWebSocket w, Fetch u]
     = s\<lparr>error := None, downloading := True, downloadProgress := Some p\<rparr>"
  by (simp add: run_def)

lemma handleDownload_run_failure:
  assumes "videoInfo c \<noteq> None"
    and "socketError b (WS_BASE env @ ''/api/ws/'' @ clientId rendering) = None"
    and "encodeURIComponent (url c) = Inr q"
    and "downloadTry env b r = (acts, Some err)"
  shows "run s (handleDownload env b c rendering evs r)
     = s\<lparr>error := Some (case err of ErrorObj m \<Rightarrow> m | NonError \<Rightarrow> ''Download failed''),
         downloading := False, downloadProgress := None\<rparr>"
proof -
  let ?s1 = "s\<lparr>error := None, downloading := True, downloadProgress := Some progressStarting\<rparr>"
  let ?s2 = "run ?s1 (concat (map socketEvent evs))"
  have s2: "?s2 = ?s1\<lparr>downloadProgress := downloadProgress ?s2\<rparr>"
    by (rule socketEvents_run)
  have "run s (handleDownload env b c rendering evs r)
      = run (run ?s2 (downloadSettle env b r)) (downloadFinally c)"
    by (simp add: handleDownload_issued [OF assms(1-3)] run_append prelude_run del: append.simps)
  also have "\<dots> = (run ?s2 (downloadSettle env b r))\<lparr>downloading := False\<rparr>"
    by (rule downloadFinally_run)
  also have "run ?s2 (downloadSettle env b r)
      = ?s2\<lparr>error := Some (case err of ErrorObj m \<Rightarrow> m | NonError \<Rightarrow> ''Download failed''),
            downloadProgress := None\<rparr>"
    by (rule downloadSettle_run_thrown [OF assms(4)])
  finally show ?thesis
    by (subst (asm) s2) simp
qed


lemma handleDownload_run_malformed:
  assumes "videoInfo c \<noteq> None"
    and "socketError b (WS_BASE env @ ''/api/ws/'' @ clientId rendering) = None"
    and "encodeURIComponent (url c) = Inl err"
  shows "run s (handleDownload env b c rendering evs r)
     = s\<lparr>error := Some (case err of ErrorObj m \<Rightarrow> m | NonError \<Rightarrow> ''Download failed''),
         downloading := False, downloadProgress := None\<rparr>"
  by (simp add: handleDownload_malformed [OF assms] run_append downloadFinally_run
        downloadCatch_run del: append.simps)
    (simp add: run_def)

lemma handleDownload_navigations:
  assumes "videoInfo c \<noteq> None"
    and "socketError b (WS_BASE env @ ''/api/ws/'' @ clientId rendering) = None"
    and "encodeURIComponent (url c) = Inr q"
  shows "navigations (handleDownload env b c rendering evs r)
       = navigations (downloadSettle env b r)"
  by (simp add: handleDownload_issued [OF assms] navigations_append socketEvents_silent
        downloadFinally_silent del: append.simps)
    (simp add: navigations_def)

lemma handleDownload_sockets:
  assumes "videoInfo c \<noteq> None"
  shows "sockets (handleDownload env b c rendering evs r)
       = (case socketError b (WS_BASE env @ ''/api/ws/'' @ clientId rendering) of
            Some e \<Rightarrow> []
          | None \<Rightarrow> [WS_BASE env @ ''/api/ws/'' @ clientId rendering])"
proof (cases "socketError b (WS_BASE env @ ''/api/ws/'' @ clientId rendering)")
  case (Some e)
  then show ?thesis
    by (simp add: handleDownload_no_socket [OF assms Some] sockets_def)
next
  case None
  show ?thesis
  proof (cases "encodeURIComponent (url c)")
    case (Inl e)
    show ?thesis
      by (simp add: handleDownload_malformed [OF assms None Inl] None sockets_append
            downloadCatch_silent downloadFinally_silent del: append.simps)
        (simp add: sockets_def)
  next
    case (Inr q)
    show ?thesis
      by (simp add: handleDownload_issued [OF assms None Inr] None sockets_append
            socketEvents_silent downloadSettle_silent downloadFinally_silent del: append.simps)
        (simp add: sockets_def)
  qed
qed

lemma handleDownload_requests:
  assumes "videoInfo c \<noteq> None"
  shows "requests (handleDownload env b c rendering evs r)
       = (case socketError b (WS_BASE env @ ''/api/ws/'' @ clientId rendering) of
            Some e \<Rightarrow> []
          | None \<Rightarrow>
              (case encodeURIComponent (url c) of
                 Inl e \<Rightarrow> []
               | Inr q \<Rightarrow>
                   [API_BASE env @ ''/api/download?url='' @ q
                    @ ''&format_id='' @ selectedFormat c
                    @ ''&client_id='' @ clientId rendering]))"
proof (cases "socketError b (WS_BASE env @ ''/api/ws/'' @ clientId rendering)")
  case (Some e)
  then show ?thesis
    by (simp add: handleDownload_no_socket [OF assms Some] requests_def)
next
  case None
  show ?thesis
  proof (cases "encodeURIComponent (url c)")
    case (Inl e)
    show ?thesis
      by (simp add: handleDownload_malformed [OF assms None Inl] None Inl requests_append
            downloadCatch_silent downloadFinally_silent del: append.simps)
        (simp add: requests_def)
  next
    case (Inr q)
    show ?thesis
      by (simp add: handleDownload_issued [OF assms None Inr] None Inr requests_append
            socketEvents_silent downloadSettle_silent downloadFinally_silent del: append.simps)
        (simp add: requests_def)
  qed
qed

lemma handleDownload_count_random:
  assumes "videoInfo c \<noteq> None"
  shows "count_list (handleDownload env b c rendering evs r) MathRandom = 1"
proof (cases "socketError b (WS_BASE env @ ''/api/ws/'' @ clientId rendering)")
  case (Some e)
  then show ?thesis
    by (simp add: handleDownload_no_socket [OF assms Some])
next
  case None
  show ?thesis
  proof (cases "encodeURIComponent (url c)")
    case (Inl e)
    show ?thesis
      by (simp add: handleDownload_malformed [OF assms None Inl] downloadCatch_silent
            downloadFinally_silent del: append.simps)
  next
    case (Inr q)
    show ?thesis
      by (simp add: handleDownload_issued [OF assms None Inr] socketEvents_count
            downloadSettle_count downloadFinally_silent del: append.simps)
  qed
qed

lemma handleDownload_sockets_ok:
  assumes "videoInfo c \<noteq> None"
    and "socketError b (WS_BASE env @ ''/api/ws/'' @ clientId rendering) = None"
  shows "sockets (handleDownload env b c rendering evs r)
       = [WS_BASE env @ ''/api/ws/'' @ clientId rendering]"
  unfolding handleDownload_sockets [OF assms(1)] assms(2) by simp

lemma handleDownload_requests_issued:
  assumes "videoInfo c \<noteq> None"
    and "socketError b (WS_BASE env @ ''/api/ws/'' @ clientId rendering) = None"
    and "encodeURIComponent (url c) = Inr q"
  shows "requests (handleDownload env b c rendering evs r)
       = [API_BASE env @ ''/api/download?url='' @ q
          @ ''&format_id='' @ selectedFormat c @ ''&client_id='' @ clientId rendering]"
  unfolding handleDownload_requests [OF assms(1)] assms(2,3) by simp

lemma handleDownload_requests_malformed:
  assumes "videoInfo c \<noteq> None"
    and "socketError b (WS_BASE env @ ''/api/ws/'' @ clientId rendering) = None"
    and "encodeURIComponent (url c) = Inl e"
  shows "requests (handleDownload env b c rendering evs r) = []"
  unfolding handleDownload_requests [OF assms(1)] assms(2,3) by simp

lemma handleDownload_opened:
  assumes "NewWebSocket w \<in> set (handleDownload env b c rendering evs r)"
  shows "videoInfo c \<noteq> None"
    and "socketError b (WS_BASE env @ ''/api/ws/'' @ clientId rendering) = None"
    and "w = WS_BASE env @ ''/api/ws/'' @ clientId rendering"
proof -
  show v: "videoInfo c \<noteq> None"
    using assms by (cases "videoInfo c") (simp_all add: handleDownload_def)
  have w: "w \<in> set (sockets (handleDownload env b c rendering evs r))"
    using assms by (simp add: sockets_member)
  show s: "socketError b (WS_BASE env @ ''/api/ws/'' @ clientId rendering) = None"
    using w unfolding handleDownload_sockets [OF v]
    by (cases "socketError b (WS_BASE env @ ''/api/ws/'' @ clientId rendering)") simp_all
  show "w = WS_BASE env @ ''/api/ws/'' @ clientId rendering"
    using w unfolding handleDownload_sockets_ok [OF v s] by simp
qed

lemma infoTry_requests:
  "requests (case infoTry r of Inl err \<Rightarrow> infoCatch err | Inr acts \<Rightarrow> acts) = []"
  by (cases r) (auto simp: infoTry_def infoCatch_def requests_def split: sum.splits)

lemma fetchVideoInfo_requests:
  assumes "trim (url c) \<noteq> []"
  shows "requests (fetchVideoInfo env c r)
     = (case encodeURIComponent (url c) of
          Inl e \<Rightarrow> []
        | Inr q \<Rightarrow> [API_BASE env @ ''/api/info?url='' @ q])"
proof (cases "encodeURIComponent (url c)")
  case (Inl e)
  then show ?thesis
    using assms by (simp add: fetchVideoInfo_def infoCatch_def requests_def)
next
  case (Inr q)
  then show ?thesis
    using assms infoTry_requests [of r]
    by (simp add: fetchVideoInfo_def requests_append del: append.simps)
      (simp add: requests_def)
qed

section \<open>The sample inputs, evaluated\<close>

lemma trim_sample: "trim ''https://youtu.be/abc'' = ''https://youtu.be/abc''"
  by code_simp

lemma encodeURIComponent_sample:
  "encodeURIComponent ''https://youtu.be/abc'' = Inr ''https%3A%2F%2Fyoutu.be%2Fabc''"
  by (simp add: encodeURIComponent_def encodeByte_def unreserved_def hexDigit_def)

lemma loadedState_simps:
  "videoInfo loadedState = Some sampleInfo"
  "url loadedState = ''https://youtu.be/abc''"
  "selectedFormat loadedState = ''best''"
  "error loadedState = None"
  by (simp_all add: loadedState_def initialState_def)

lemma sample_bases:
  "API_BASE None = ''http://localhost:8000''"
  "WS_BASE None = ''ws://localhost:8000''"
  by (simp_all add: API_BASE_def WS_BASE_def)

lemma sample_addresses:
  "WS_BASE None @ ''/api/ws/'' @ clientId ''0.4fzyo82mvyr'' = ''ws://localhost:8000/api/ws/82mvyr''"
  "WS_BASE None @ ''/api/ws/'' @ clientId ''0'' = ''ws://localhost:8000/api/ws/''"
  "API_BASE None @ ''/api/info?url='' @ ''https%3A%2F%2Fyoutu.be%2Fabc''
     = ''http://localhost:8000/api/info?url=https%3A%2F%2Fyoutu.be%2Fabc''"
  "API_BASE None @ ''/api/download?url='' @ ''https%3A%2F%2Fyoutu.be%2Fabc''
     @ ''&format_id='' @ selectedFormat loadedState @ ''&client_id='' @ clientId ''0.4fzyo82mvyr''
     = ''http://localhost:8000/api/download?url=https%3A%2F%2Fyoutu.be%2Fabc&format_id=best&client_id=82mvyr''"
  "API_BASE None @ ''/api/download?url='' @ ''https%3A%2F%2Fyoutu.be%2Fabc''
     @ ''&format_id='' @ selectedFormat loadedState @ ''&client_id='' @ clientId ''0''
     = ''http://localhost:8000/api/download?url=https%3A%2F%2Fyoutu.be%2Fabc&format_id=best&client_id=''"
  "API_BASE None @ ''/files/video.mp4'' = ''http://localhost:8000/files/video.mp4''"
  "API_BASE None @ ''files/video.mp4'' = ''http://localhost:8000files/video.mp4''"
  by (simp_all add: API_BASE_def WS_BASE_def clientId_def substring_def loadedState_simps)


lemma loadedState_issued:
  "videoInfo loadedState \<noteq> None"
  "socketError sampleBrowser (WS_BASE None @ ''/api/ws/'' @ clientId ''0.4fzyo82mvyr'') = None"
  "encodeURIComponent (url loadedState) = Inr ''https%3A%2F%2Fyoutu.be%2Fabc''"
  by (simp_all add: loadedState_simps sample_bases clientId_def substring_def sampleBrowser_def
        encodeURIComponent_sample)

lemma loadedState_issued_empty_token:
  "socketError sampleBrowser (WS_BASE None @ ''/api/ws/'' @ clientId ''0'') = None"
  by (simp add: sample_bases clientId_def substring_def sampleBrowser_def)

lemma surrogateState_malformed:
  "videoInfo surrogateState \<noteq> None"
  "socketError sampleBrowser (WS_BASE None @ ''/api/ws/'' @ clientId ''0.4fzyo82mvyr'') = None"
  "encodeURIComponent (url surrogateState) = Inl (ErrorObj ''URI malformed'')"
  by (simp_all add: surrogateState_def loadedState_def initialState_def sample_bases
        clientId_def substring_def sampleBrowser_def encodeURIComponent_def)

lemma loadedState_info_request:
  "requests (fetchVideoInfo None loadedState r)
     = [''http://localhost:8000/api/info?url=https%3A%2F%2Fyoutu.be%2Fabc'']"
proof -
  have t: "trim (url loadedState) \<noteq> []"
    by (simp add: loadedState_simps trim_sample)
  show ?thesis
    unfolding fetchVideoInfo_requests [OF t] loadedState_issued(3) sum.case sample_addresses ..
qed

lemma loadedState_download_addresses:
  "sockets (handleDownload None sampleBrowser loadedState ''0.4fzyo82mvyr'' evs r)
     = [''ws://localhost:8000/api/ws/82mvyr'']"
  "requests (handleDownload None sampleBrowser loadedState ''0.4fzyo82mvyr'' evs r)
     = [''http://localhost:8000/api/download?url=https%3A%2F%2Fyoutu.be%2Fabc&format_id=best&client_id=82mvyr'']"
proof -
  note i = loadedState_issued
  show "sockets (handleDownload None sampleBrowser loadedState ''0.4fzyo82mvyr'' evs r)
     = [''ws://localhost:8000/api/ws/82mvyr'']"
    unfolding handleDownload_sockets_ok [OF i(1,2)] sample_addresses ..
  show "requests (handleDownload None sampleBrowser loadedState ''0.4fzyo82mvyr'' evs r)
     = [''http://localhost:8000/api/download?url=https%3A%2F%2Fyoutu.be%2Fabc&format_id=best&client_id=82mvyr'']"
    unfolding handleDownload_requests_issued [OF i] sample_addresses ..
qed

section \<open>The token and the two connections of a download\<close>

text \<open>
  Claim C1 says that every invocation of \<^verbatim>\<open>handleDownload\<close> generates one token
  and uses it both in the address of the progress channel it opens and in the download
  request it then issues. The handler is bound to the download button only, which is
  rendered inside \<^verbatim>\<open>{videoInfo && (...)}\<close>, so an invocation always has video
  information loaded; the url field stays editable. Here is such an invocation that
  issues no download request: the url field ends in an unpaired surrogate, the token
  is drawn and the socket is opened, then \<^verbatim>\<open>encodeURIComponent(url)\<close> throws inside
  the \<^verbatim>\<open>try\<close>, no request is sent and the message \<^verbatim>\<open>URI malformed\<close> is shown.
\<close>

theorem handleDownload_one_token_counterexample:
  "videoInfo surrogateState \<noteq> None
   \<and> count_list (handleDownload None sampleBrowser surrogateState ''0.4fzyo82mvyr'' []
        (IsOk successBody)) MathRandom = 1
   \<and> sockets (handleDownload None sampleBrowser surrogateState ''0.4fzyo82mvyr'' []
        (IsOk successBody)) = [''ws://localhost:8000/api/ws/82mvyr'']
   \<and> requests (handleDownload None sampleBrowser surrogateState ''0.4fzyo82mvyr'' []
        (IsOk successBody)) = []
   \<and> error (run surrogateState
        (handleDownload None sampleBrowser surrogateState ''0.4fzyo82mvyr'' [] (IsOk successBody)))
       = Some ''URI malformed''"
proof -
  note m = surrogateState_malformed
  have a: "sockets (handleDownload None sampleBrowser surrogateState ''0.4fzyo82mvyr'' []
        (IsOk successBody)) = [''ws://localhost:8000/api/ws/82mvyr'']"
    unfolding handleDownload_sockets_ok [OF m(1,2)] sample_addresses ..
  have b: "requests (handleDownload None sampleBrowser surrogateState ''0.4fzyo82mvyr'' []
        (IsOk successBody)) = []"
    by (rule handleDownload_requests_malformed [OF m])
  have c: "error (run surrogateState
        (handleDownload None sampleBrowser surrogateState ''0.4fzyo82mvyr'' [] (IsOk successBody)))
       = Some ''URI malformed''"
    by (simp add: handleDownload_run_malformed [OF m])
  show ?thesis
    by (rule conjI m(1) handleDownload_count_random [OF m(1)] a b c)+
qed

text \<open>
  Claim C1 as the page has it, for every invocation with video information loaded:
  \<^verbatim>\<open>Math.random\<close> is called exactly once, and nothing is opened or requested before
  the draw. When the socket constructor accepts the address, exactly one socket is
  opened, at \<^verbatim>\<open>WS_BASE/api/ws/<token>\<close>, right after the draw; when it throws, no
  socket is opened and no request is sent. When the socket has been opened and
  \<^verbatim>\<open>encodeURIComponent(url)\<close> does not throw, exactly one request is sent, next
  after the socket, and its \<^verbatim>\<open>client_id\<close> parameter is the same token; when it
  throws, no request is sent.
\<close>

theorem handleDownload_one_token:
  assumes "videoInfo c \<noteq> None"
  shows "count_list (handleDownload env b c rendering evs r) MathRandom = 1
     \<and> sockets (handleDownload env b c rendering evs r)
         = (case socketError b (WS_BASE env @ ''/api/ws/'' @ clientId rendering) of
              Some x \<Rightarrow> []
            | None \<Rightarrow> [WS_BASE env @ ''/api/ws/'' @ clientId rendering])
     \<and> requests (handleDownload env b c rendering evs r)
         = (case socketError b (WS_BASE env @ ''/api/ws/'' @ clientId rendering) of
              Some x \<Rightarrow> []
            | None \<Rightarrow>
                (case encodeURIComponent (url c) of
                   Inl x \<Rightarrow> []
                 | Inr q \<Rightarrow>
                     [API_BASE env @ ''/api/download?url='' @ q
                      @ ''&format_id='' @ selectedFormat c
                      @ ''&client_id='' @ clientId rendering]))
     \<and> (\<exists>pre post.
           handleDownload env b c rendering evs r
             = pre @ [MathRandom]
               @ (case socketError b (WS_BASE env @ ''/api/ws/'' @ clientId rendering) of
                    Some x \<Rightarrow> []
                  | None \<Rightarrow>
                      [NewWebSocket (WS_BASE env @ ''/api/ws/'' @ clientId rendering)]
                      @ (case encodeURIComponent (url c) of
                           Inl x \<Rightarrow> []
                         | Inr q \<Rightarrow>
                             [Fetch (API_BASE env @ ''/api/download?url='' @ q
                                     @ ''&format_id='' @ selectedFormat c
                                     @ ''&client_id='' @ clientId rendering)])
                      @ post)
           \<and> sockets pre = [] \<and> requests pre = [])"
proof (intro conjI)
  show "count_list (handleDownload env b c rendering evs r) MathRandom = 1"
    by (rule handleDownload_count_random [OF assms])
  show "sockets (handleDownload env b c rendering evs r)
         = (case socketError b (WS_BASE env @ ''/api/ws/'' @ clientId rendering) of
              Some x \<Rightarrow> []
            | None \<Rightarrow> [WS_BASE env @ ''/api/ws/'' @ clientId rendering])"
    by (rule handleDownload_sockets [OF assms])
  show "requests (handleDownload env b c rendering evs r)
         = (case socketError b (WS_BASE env @ ''/api/ws/'' @ clientId rendering) of
              Some x \<Rightarrow> []
            | None \<Rightarrow>
                (case encodeURIComponent (url c) of
                   Inl x \<Rightarrow> []
                 | Inr q \<Rightarrow>
                     [API_BASE env @ ''/api/download?url='' @ q
                      @ ''&format_id='' @ selectedFormat c
                      @ ''&client_id='' @ clientId rendering]))"
    by (rule handleDownload_requests [OF assms])
  let ?pre = "[SetDownloading True, SetError None, SetDownloadProgress (Some progressStarting)]"
  have silent: "sockets ?pre = []" "requests ?pre = []"
    by (simp_all add: sockets_def requests_def)
  have "\<exists>post. handleDownload env b c rendering evs r
             = ?pre @ [MathRandom]
               @ (case socketError b (WS_BASE env @ ''/api/ws/'' @ clientId rendering) of
                    Some x \<Rightarrow> []
                  | None \<Rightarrow>
                      [NewWebSocket (WS_BASE env @ ''/api/ws/'' @ clientId rendering)]
                      @ (case encodeURIComponent (url c) of
                           Inl x \<Rightarrow> []
                         | Inr q \<Rightarrow>
                             [Fetch (API_BASE env @ ''/api/download?url='' @ q
                                     @ ''&format_id='' @ selectedFormat c
                                     @ ''&client_id='' @ clientId rendering)])
                      @ post)"
  proof (cases "socketError b (WS_BASE env @ ''/api/ws/'' @ clientId rendering)")
    case (Some x)
    show ?thesis
      unfolding handleDownload_no_socket [OF assms Some] Some option.case by simp
  next
    case None
    show ?thesis
    proof (cases "encodeURIComponent (url c)")
      case (Inl x)
      show ?thesis
        unfolding handleDownload_malformed [OF assms None Inl] None Inl option.case sum.case
        by simp
    next
      case (Inr q)
      show ?thesis
        unfolding handleDownload_issued [OF assms None Inr] None Inr option.case sum.case
        by simp
    qed
  qed
  with silent show "\<exists>pre post.
           handleDownload env b c rendering evs r
             = pre @ [MathRandom]
               @ (case socketError b (WS_BASE env @ ''/api/ws/'' @ clientId rendering) of
                    Some x \<Rightarrow> []
                  | None \<Rightarrow>
                      [NewWebSocket (WS_BASE env @ ''/api/ws/'' @ clientId rendering)]
                      @ (case encodeURIComponent (url c) of
                           Inl x \<Rightarrow> []
                         | Inr q \<Rightarrow>
                             [Fetch (API_BASE env @ ''/api/download?url='' @ q
                                     @ ''&format_id='' @ selectedFormat c
                                     @ ''&client_id='' @ clientId rendering)])
                      @ post)
           \<and> sockets pre = [] \<and> requests pre = []"
    by blast
qed

theorem handleDownload_one_token_witness:
  "videoInfo loadedState \<noteq> None
   \<and> count_list (handleDownload None sampleBrowser loadedState ''0.4fzyo82mvyr'' []
        (IsOk successBody)) MathRandom = 1
   \<and> sockets (handleDownload None sampleBrowser loadedState ''0.4fzyo82mvyr'' [] (IsOk successBody))
       = [''ws://localhost:8000/api/ws/82mvyr'']
   \<and> requests (handleDownload None sampleBrowser loadedState ''0.4fzyo82mvyr'' [] (IsOk successBody))
       = [''http://localhost:8000/api/download?url=https%3A%2F%2Fyoutu.be%2Fabc&format_id=best&client_id=82mvyr'']"
proof -
  note i = loadedState_issued
  note th = handleDownload_one_token [OF i(1), of None sampleBrowser "''0.4fzyo82mvyr''" "[]" "IsOk successBody"]
  have s: "sockets (handleDownload None sampleBrowser loadedState ''0.4fzyo82mvyr'' [] (IsOk successBody))
       = [''ws://localhost:8000/api/ws/82mvyr'']"
    using th [THEN conjunct2, THEN conjunct1, unfolded i(2) option.case]
    unfolding sample_addresses .
  have q: "requests (handleDownload None sampleBrowser loadedState ''0.4fzyo82mvyr'' [] (IsOk successBody))
       = [''http://localhost:8000/api/download?url=https%3A%2F%2Fyoutu.be%2Fabc&format_id=best&client_id=82mvyr'']"
    using th [THEN conjunct2, THEN conjunct2, THEN conjunct1, unfolded i(2,3) option.case sum.case]
    unfolding sample_addresses .
  show ?thesis
    by (rule conjI i(1) th [THEN conjunct1] s q)+
qed

text \<open>
  Claim C2 says the token is never empty. \<^verbatim>\<open>substring(7)\<close> drops the first seven
  characters of the rendering, so a rendering of at most seven characters leaves
  nothing: a draw of \<open>0\<close> renders as \<^verbatim>\<open>"0"\<close> and a draw of \<open>0.5\<close> as
  \<^verbatim>\<open>"0.i"\<close>. The page then opens the socket at \<^verbatim>\<open>/api/ws/\<close> and sends
  \<^verbatim>\<open>client_id=\<close> with no token at all.
\<close>

theorem clientId_empty_token:
  "(clientId rendering = [] \<longleftrightarrow> length rendering \<le> 7)
   \<and> clientId ''0'' = [] \<and> clientId ''0.i'' = []
   \<and> sockets (handleDownload None sampleBrowser loadedState ''0'' [] (IsOk successBody))
       = [''ws://localhost:8000/api/ws/'']
   \<and> requests (handleDownload None sampleBrowser loadedState ''0'' [] (IsOk successBody))
       = [''http://localhost:8000/api/download?url=https%3A%2F%2Fyoutu.be%2Fabc&format_id=best&client_id='']"
proof -
  have v: "videoInfo loadedState \<noteq> None"
    by (simp add: loadedState_simps)
  note w = loadedState_issued_empty_token
  have "sockets (handleDownload None sampleBrowser loadedState ''0'' [] (IsOk successBody))
       = [''ws://localhost:8000/api/ws/'']"
    unfolding handleDownload_sockets_ok [OF v w] sample_addresses ..
  moreover have "requests (handleDownload None sampleBrowser loadedState ''0'' [] (IsOk successBody))
       = [''http://localhost:8000/api/download?url=https%3A%2F%2Fyoutu.be%2Fabc&format_id=best&client_id='']"
    unfolding handleDownload_requests_issued [OF v w loadedState_issued(3)] sample_addresses ..
  moreover have "clientId rendering = [] \<longleftrightarrow> length rendering \<le> 7"
    "clientId ''0'' = []" "clientId ''0.i'' = []"
    by (simp_all add: clientId_def substring_def)
  ultimately show ?thesis
    by blast
qed

section \<open>The addresses and the fields the page uses\<close>

text \<open>
  Claim C3 says the page uses the addresses and the field names of the specification's
  section 6. At the sample state the three addresses the page uses differ from those
  (every path starts with \<^verbatim>\<open>/api\<close>, and the parameters are \<^verbatim>\<open>format_id\<close> and
  \<^verbatim>\<open>client_id\<close>), and the success body worded as in the specification, with
  \<^verbatim>\<open>downloadUrl\<close>, is taken for an invalid response: no navigation, and an error
  message.
\<close>

theorem client_addresses_counterexample:
  "encodeURIComponent (url loadedState) = Inr ''https%3A%2F%2Fyoutu.be%2Fabc''
   \<and> requests (fetchVideoInfo None loadedState (IsOk (Some sampleInfo)))
     = [''http://localhost:8000/api/info?url=https%3A%2F%2Fyoutu.be%2Fabc'']
   \<and> requests (fetchVideoInfo None loadedState (IsOk (Some sampleInfo)))
     \<noteq> [specInfoRequest (API_BASE None) ''https%3A%2F%2Fyoutu.be%2Fabc'']
   \<and> sockets (handleDownload None sampleBrowser loadedState ''0.4fzyo82mvyr'' []
        (IsOk specSuccessBody))
     = [''ws://localhost:8000/api/ws/82mvyr'']
   \<and> sockets (handleDownload None sampleBrowser loadedState ''0.4fzyo82mvyr'' []
        (IsOk specSuccessBody))
     \<noteq> [specChannel (WS_BASE None) (clientId ''0.4fzyo82mvyr'')]
   \<and> requests (handleDownload None sampleBrowser loadedState ''0.4fzyo82mvyr'' []
        (IsOk specSuccessBody))
     = [''http://localhost:8000/api/download?url=https%3A%2F%2Fyoutu.be%2Fabc&format_id=best&client_id=82mvyr'']
   \<and> requests (handleDownload None sampleBrowser loadedState ''0.4fzyo82mvyr'' []
        (IsOk specSuccessBody))
     \<noteq> [specDownloadRequest (API_BASE None) ''https%3A%2F%2Fyoutu.be%2Fabc''
           (selectedFormat loadedState) (clientId ''0.4fzyo82mvyr'')]
   \<and> navigations (handleDownload None sampleBrowser loadedState ''0.4fzyo82mvyr'' []
        (IsOk specSuccessBody)) = []
   \<and> error (run loadedState
         (handleDownload None sampleBrowser loadedState ''0.4fzyo82mvyr'' [] (IsOk specSuccessBody)))
     = Some ''Download failed - invalid response''"
proof -
  note i = loadedState_issued
  have tr: "downloadTry None sampleBrowser (IsOk specSuccessBody)
      = ([], Some (ErrorObj ''Download failed - invalid response''))"
    by (rule downloadTry_invalid) (simp add: specSuccessBody_def)
  have nav: "navigations (handleDownload None sampleBrowser loadedState ''0.4fzyo82mvyr'' []
        (IsOk specSuccessBody)) = []"
    unfolding handleDownload_navigations [OF i]
    by (rule downloadSettle_navigations_thrown [OF tr])
  have err: "error (run loadedState
         (handleDownload None sampleBrowser loadedState ''0.4fzyo82mvyr'' [] (IsOk specSuccessBody)))
     = Some ''Download failed - invalid response''"
    by (simp add: handleDownload_run_failure [OF i tr])
  have spec: "specInfoRequest (API_BASE None) ''https%3A%2F%2Fyoutu.be%2Fabc''
        = ''http://localhost:8000/info?url=https%3A%2F%2Fyoutu.be%2Fabc''"
      "specChannel (WS_BASE None) (clientId ''0.4fzyo82mvyr'') = ''ws://localhost:8000/ws/82mvyr''"
      "specDownloadRequest (API_BASE None) ''https%3A%2F%2Fyoutu.be%2Fabc''
           (selectedFormat loadedState) (clientId ''0.4fzyo82mvyr'')
        = ''http://localhost:8000/download?url=https%3A%2F%2Fyoutu.be%2Fabc&formatId=best&token=82mvyr''"
    by (simp_all add: specInfoRequest_def specChannel_def specDownloadRequest_def
          loadedState_simps sample_bases clientId_def substring_def)
  show ?thesis
    unfolding loadedState_info_request loadedState_download_addresses spec nav err i(3)
    by simp
qed

text \<open>
  Claim C3 as the page has it. When the url is not blank, the requests of
  \<^verbatim>\<open>fetchVideoInfo\<close> are the single address
  \<^verbatim>\<open>API_BASE/api/info?url=<encoded url>\<close>, or none when the url cannot be encoded.
  With video information loaded, the sockets of a download are the single address
  \<^verbatim>\<open>WS_BASE/api/ws/<token>\<close>, or none when the socket constructor throws, and its
  requests are the single address
  \<^verbatim>\<open>API_BASE/api/download?url=<encoded url>&format_id=<format>&client_id=<token>\<close>,
  or none when the constructor has thrown or the url cannot be encoded. Of an OK body
  only \<^verbatim>\<open>status\<close> and \<^verbatim>\<open>download_url\<close> are read: two bodies that agree on these
  two properties are handled alike, whatever else (a \<^verbatim>\<open>filename\<close>, say) they hold.
\<close>

theorem client_addresses:
  "(trim (url c) \<noteq> [] \<longrightarrow>
      requests (fetchVideoInfo env c ri)
        = (case encodeURIComponent (url c) of
             Inl x \<Rightarrow> []
           | Inr q \<Rightarrow> [API_BASE env @ ''/api/info?url='' @ q]))
   \<and> (videoInfo c \<noteq> None \<longrightarrow>
      sockets (handleDownload env b c rendering evs r)
        = (case socketError b (WS_BASE env @ ''/api/ws/'' @ clientId rendering) of
             Some x \<Rightarrow> []
           | None \<Rightarrow> [WS_BASE env @ ''/api/ws/'' @ clientId rendering])
      \<and> requests (handleDownload env b c rendering evs r)
        = (case socketError b (WS_BASE env @ ''/api/ws/'' @ clientId rendering) of
             Some x \<Rightarrow> []
           | None \<Rightarrow>
               (case encodeURIComponent (url c) of
                  Inl x \<Rightarrow> []
                | Inr q \<Rightarrow>
                    [API_BASE env @ ''/api/download?url='' @ q
                     @ ''&format_id='' @ selectedFormat c
                     @ ''&client_id='' @ clientId rendering])))
   \<and> (get d ''status'' = get d2 ''status'' \<and> get d ''download_url'' = get d2 ''download_url'' \<longrightarrow>
      handleDownload env b c rendering evs (IsOk d)
        = handleDownload env b c rendering evs (IsOk d2))"
proof (intro conjI impI)
  assume "trim (url c) \<noteq> []"
  then show "requests (fetchVideoInfo env c ri)
        = (case encodeURIComponent (url c) of
             Inl x \<Rightarrow> []
           | Inr q \<Rightarrow> [API_BASE env @ ''/api/info?url='' @ q])"
    by (rule fetchVideoInfo_requests)
next
  assume v: "videoInfo c \<noteq> None"
  show "sockets (handleDownload env b c rendering evs r)
        = (case socketError b (WS_BASE env @ ''/api/ws/'' @ clientId rendering) of
             Some x \<Rightarrow> []
           | None \<Rightarrow> [WS_BASE env @ ''/api/ws/'' @ clientId rendering])"
    by (rule handleDownload_sockets [OF v])
  show "requests (handleDownload env b c rendering evs r)
        = (case socketError b (WS_BASE env @ ''/api/ws/'' @ clientId rendering) of
             Some x \<Rightarrow> []
           | None \<Rightarrow>
               (case encodeURIComponent (url c) of
                  Inl x \<Rightarrow> []
                | Inr q \<Rightarrow>
                    [API_BASE env @ ''/api/download?url='' @ q
                     @ ''&format_id='' @ selectedFormat c
                     @ ''&client_id='' @ clientId rendering]))"
    by (rule handleDownload_requests [OF v])
next
  assume "get d ''status'' = get d2 ''status'' \<and> get d ''download_url'' = get d2 ''download_url''"
  then have "downloadTry env b (IsOk d) = downloadTry env b (IsOk d2)"
    by (intro downloadTry_reads) simp_all
  then have "downloadSettle env b (IsOk d) = downloadSettle env b (IsOk d2)"
    by (simp only: downloadSettle_def)
  then show "handleDownload env b c rendering evs (IsOk d)
        = handleDownload env b c rendering evs (IsOk d2)"
    by (simp only: handleDownload_def)
qed

theorem client_addresses_witness:
  "trim (url loadedState) \<noteq> [] \<and> videoInfo loadedState \<noteq> None
   \<and> get successBody ''status''
       = get (JObj [(''download_url'', JStr ''/files/video.mp4''), (''status'', JStr ''success'')]) ''status''
   \<and> get successBody ''download_url''
       = get (JObj [(''download_url'', JStr ''/files/video.mp4''), (''status'', JStr ''success'')]) ''download_url''
   \<and> requests (fetchVideoInfo None loadedState (IsOk (Some sampleInfo)))
       = [''http://localhost:8000/api/info?url=https%3A%2F%2Fyoutu.be%2Fabc'']
   \<and> sockets (handleDownload None sampleBrowser loadedState ''0.4fzyo82mvyr'' [] (IsOk successBody))
       = [''ws://localhost:8000/api/ws/82mvyr'']
   \<and> requests (handleDownload None sampleBrowser loadedState ''0.4fzyo82mvyr'' [] (IsOk successBody))
       = [''http://localhost:8000/api/download?url=https%3A%2F%2Fyoutu.be%2Fabc&format_id=best&client_id=82mvyr'']
   \<and> handleDownload None sampleBrowser loadedState ''0.4fzyo82mvyr'' [] (IsOk successBody)
       = handleDownload None sampleBrowser loadedState ''0.4fzyo82mvyr'' []
           (IsOk (JObj [(''download_url'', JStr ''/files/video.mp4''), (''status'', JStr ''success'')]))"
proof -
  note i = loadedState_issued
  have t: "trim (url loadedState) \<noteq> []"
    by (simp add: loadedState_simps trim_sample)
  have g: "get successBody ''status''
       = get (JObj [(''download_url'', JStr ''/files/video.mp4''), (''status'', JStr ''success'')]) ''status''"
    "get successBody ''download_url''
       = get (JObj [(''download_url'', JStr ''/files/video.mp4''), (''status'', JStr ''success'')]) ''download_url''"
    by (simp_all add: successBody_def)
  note th = client_addresses [of loadedState None "IsOk (Some sampleInfo)" sampleBrowser "''0.4fzyo82mvyr''" "[]"
          "IsOk successBody" successBody
          "JObj [(''download_url'', JStr ''/files/video.mp4''), (''status'', JStr ''success'')]"]
  note a = th [THEN conjunct1, rule_format, OF t, unfolded i(3) sum.case, unfolded sample_addresses]
  note b = th [THEN conjunct2, THEN conjunct1, rule_format, OF i(1), THEN conjunct1,
      unfolded i(2) option.case, unfolded sample_addresses]
  note c = th [THEN conjunct2, THEN conjunct1, rule_format, OF i(1), THEN conjunct2,
      unfolded i(2,3) option.case sum.case, unfolded sample_addresses]
  note d = th [THEN conjunct2, THEN conjunct2, rule_format, OF conjI [OF g]]
  show ?thesis
    by (rule conjI t i(1) g a b c d)+
qed

section \<open>How a download ends\<close>




text \<open>
  Claim C5 says that after every response that is not OK the error message is the
  body's \<^verbatim>\<open>detail\<close>, and \<^verbatim>\<open>"Download failed"\<close> only when \<^verbatim>\<open>detail\<close> is absent.
  A body whose \<^verbatim>\<open>detail\<close> is present but empty gives \<^verbatim>\<open>"Download failed"\<close> too
  (\<^verbatim>\<open>data.detail || "Download failed"\<close> tests truthiness); a response whose body
  is not JSON gives the message of the parse error, since \<^verbatim>\<open>response.json()\<close> is
  awaited before \<^verbatim>\<open>response.ok\<close> is looked at; and a \<^verbatim>\<open>detail\<close> that is an object
  with a \<^verbatim>\<open>toString\<close> property makes \<^verbatim>\<open>new Error(detail)\<close> throw, so the message
  shown is that of the \<^verbatim>\<open>TypeError\<close>.
\<close>

theorem handleDownload_not_ok_counterexample:
  "get (JObj [(''detail'', JStr [])]) ''detail'' = Inr (JStr [])
   \<and> requests (handleDownload None sampleBrowser loadedState ''0.4fzyo82mvyr'' []
          (NotOk (JObj [(''detail'', JStr [])])))
       = [''http://localhost:8000/api/download?url=https%3A%2F%2Fyoutu.be%2Fabc&format_id=best&client_id=82mvyr'']
   \<and> error (run loadedState (handleDownload None sampleBrowser loadedState ''0.4fzyo82mvyr'' []
          (NotOk (JObj [(''detail'', JStr [])])))) = Some ''Download failed''
   \<and> error (run loadedState (handleDownload None sampleBrowser loadedState ''0.4fzyo82mvyr'' []
          (JsonRejected False (ErrorObj ''Unexpected token < in JSON at position 0''))))
       = Some ''Unexpected token < in JSON at position 0''
   \<and> get (JObj [(''detail'', JObj [(''toString'', JNum ''1'')])]) ''detail''
       = Inr (JObj [(''toString'', JNum ''1'')])
   \<and> error (run loadedState (handleDownload None sampleBrowser loadedState ''0.4fzyo82mvyr'' []
          (NotOk (JObj [(''detail'', JObj [(''toString'', JNum ''1'')])]))))
       = Some ''Cannot convert object to primitive value''"
proof -
  note i = loadedState_issued
  have a: "error (run loadedState (handleDownload None sampleBrowser loadedState ''0.4fzyo82mvyr'' []
          (NotOk (JObj [(''detail'', JStr [])])))) = Some ''Download failed''"
    by (simp add: handleDownload_run_failure [OF i downloadTry_not_ok])
  have b: "error (run loadedState (handleDownload None sampleBrowser loadedState ''0.4fzyo82mvyr'' []
          (JsonRejected False (ErrorObj ''Unexpected token < in JSON at position 0''))))
       = Some ''Unexpected token < in JSON at position 0''"
    by (simp add: handleDownload_run_failure [OF i downloadTry_rejected(1)])
  have c: "error (run loadedState (handleDownload None sampleBrowser loadedState ''0.4fzyo82mvyr'' []
          (NotOk (JObj [(''detail'', JObj [(''toString'', JNum ''1'')])]))))
       = Some ''Cannot convert object to primitive value''"
    by (simp add: handleDownload_run_failure [OF i downloadTry_not_ok])
  have g: "get (JObj [(''detail'', JStr [])]) ''detail'' = Inr (JStr [])"
    "get (JObj [(''detail'', JObj [(''toString'', JNum ''1'')])]) ''detail''
       = Inr (JObj [(''toString'', JNum ''1'')])"
    by simp_all
  show ?thesis
    by (rule conjI g(1) loadedState_download_addresses(2) a b g(2) c)+
qed

text \<open>
  Claim C5 as the page has it, for an invocation that has issued its request. After a
  response that is not OK with body \<open>d\<close>: when \<^verbatim>\<open>d.detail\<close> is truthy and converts
  to the string \<open>m\<close>, the error message is \<open>m\<close>; when it is truthy and its
  conversion throws, the error message is that of the exception; when it is falsy
  (absent, \<^verbatim>\<open>null\<close>, empty, \<open>0\<close>, \<^verbatim>\<open>false\<close>), the error message is
  \<^verbatim>\<open>"Download failed"\<close>; and when reading \<^verbatim>\<open>d.detail\<close> throws (\<open>d\<close> is
  \<^verbatim>\<open>null\<close>), it is the message of that exception. These are all the cases, since
  neither the conversion nor the property access throws anything but an \<^verbatim>\<open>Error\<close>.
  After every response that is not OK, also one whose body does not parse, the
  progress is reset to \<^verbatim>\<open>null\<close> and the browser is sent nowhere; when the body does
  not parse, the error message is that of the exception \<^verbatim>\<open>response.json()\<close> threw.
\<close>

theorem handleDownload_not_ok:
  assumes "videoInfo c \<noteq> None"
    and "socketError b (WS_BASE env @ ''/api/ws/'' @ clientId rendering) = None"
    and "encodeURIComponent (url c) = Inr q"
  shows "(get d ''detail'' = Inr detail \<and> truthy detail \<and> toString detail = Inr m \<longrightarrow>
            error (run s (handleDownload env b c rendering evs (NotOk d))) = Some m)
       \<and> (get d ''detail'' = Inr detail \<and> truthy detail \<and> toString detail = Inl (ErrorObj m) \<longrightarrow>
            error (run s (handleDownload env b c rendering evs (NotOk d))) = Some m)
       \<and> (get d ''detail'' = Inr detail \<and> \<not> truthy detail \<longrightarrow>
            error (run s (handleDownload env b c rendering evs (NotOk d)))
              = Some ''Download failed'')
       \<and> (get d ''detail'' = Inl (ErrorObj m) \<longrightarrow>
            error (run s (handleDownload env b c rendering evs (NotOk d))) = Some m)
       \<and> toString detail \<noteq> Inl NonError
       \<and> get d ''detail'' \<noteq> Inl NonError
       \<and> downloadProgress (run s (handleDownload env b c rendering evs (NotOk d))) = None
       \<and> navigations (handleDownload env b c rendering evs (NotOk d)) = []
       \<and> error (run s (handleDownload env b c rendering evs (JsonRejected False e)))
              = Some (case e of ErrorObj m \<Rightarrow> m | NonError \<Rightarrow> ''Download failed'')
       \<and> downloadProgress (run s (handleDownload env b c rendering evs (JsonRejected False e)))
              = None
       \<and> navigations (handleDownload env b c rendering evs (JsonRejected False e)) = []"
proof (intro conjI impI)
  note notok = downloadTry_not_ok [of env b d]
  note rej = downloadTry_rejected(1) [of env b False e]
  note run_notok = handleDownload_run_failure [OF assms notok]
  note run_rej = handleDownload_run_failure [OF assms rej]
  show "toString detail \<noteq> Inl NonError"
    by (rule toString_throws)
  show "get d ''detail'' \<noteq> Inl NonError"
    by (rule get_throws)
  show "downloadProgress (run s (handleDownload env b c rendering evs (NotOk d))) = None"
    by (simp add: run_notok)
  show "navigations (handleDownload env b c rendering evs (NotOk d)) = []"
    unfolding handleDownload_navigations [OF assms]
    by (rule downloadSettle_navigations_thrown [OF notok])
  show "error (run s (handleDownload env b c rendering evs (JsonRejected False e)))
              = Some (case e of ErrorObj m \<Rightarrow> m | NonError \<Rightarrow> ''Download failed'')"
    by (simp add: run_rej)
  show "downloadProgress (run s (handleDownload env b c rendering evs (JsonRejected False e)))
              = None"
    by (simp add: run_rej)
  show "navigations (handleDownload env b c rendering evs (JsonRejected False e)) = []"
    unfolding handleDownload_navigations [OF assms]
    by (rule downloadSettle_navigations_thrown [OF rej])
  {
    assume "get d ''detail'' = Inr detail \<and> truthy detail \<and> toString detail = Inr m"
    then show "error (run s (handleDownload env b c rendering evs (NotOk d))) = Some m"
      by (simp add: run_notok)
  next
    assume "get d ''detail'' = Inr detail \<and> truthy detail \<and> toString detail = Inl (ErrorObj m)"
    then show "error (run s (handleDownload env b c rendering evs (NotOk d))) = Some m"
      by (simp add: run_notok)
  next
    assume "get d ''detail'' = Inr detail \<and> \<not> truthy detail"
    then show "error (run s (handleDownload env b c rendering evs (NotOk d)))
              = Some ''Download failed''"
      by (simp add: run_notok)
  next
    assume "get d ''detail'' = Inl (ErrorObj m)"
    then show "error (run s (handleDownload env b c rendering evs (NotOk d))) = Some m"
      by (simp add: run_notok)
  }
qed

theorem handleDownload_not_ok_witness:
  "videoInfo loadedState \<noteq> None
   \<and> socketError sampleBrowser (WS_BASE None @ ''/api/ws/'' @ clientId ''0.4fzyo82mvyr'') = None
   \<and> encodeURIComponent (url loadedState) = Inr ''https%3A%2F%2Fyoutu.be%2Fabc''
   \<and> get (JObj [(''detail'', JStr ''Video unavailable'')]) ''detail'' = Inr (JStr ''Video unavailable'')
   \<and> truthy (JStr ''Video unavailable'')
   \<and> toString (JStr ''Video unavailable'') = Inr ''Video unavailable''
   \<and> error (run loadedState (handleDownload None sampleBrowser loadedState ''0.4fzyo82mvyr'' []
        (NotOk (JObj [(''detail'', JStr ''Video unavailable'')])))) = Some ''Video unavailable''
   \<and> downloadProgress (run loadedState (handleDownload None sampleBrowser loadedState
        ''0.4fzyo82mvyr'' [] (NotOk (JObj [(''detail'', JStr ''Video unavailable'')])))) = None
   \<and> navigations (handleDownload None sampleBrowser loadedState ''0.4fzyo82mvyr'' []
        (NotOk (JObj [(''detail'', JStr ''Video unavailable'')]))) = []"
proof -
  note i = loadedState_issued
  have g: "get (JObj [(''detail'', JStr ''Video unavailable'')]) ''detail''
      = Inr (JStr ''Video unavailable'')"
    "truthy (JStr ''Video unavailable'')"
    "toString (JStr ''Video unavailable'') = Inr ''Video unavailable''"
    by simp_all
  note th = handleDownload_not_ok [OF i, of "JObj [(''detail'', JStr ''Video unavailable'')]"
      "JStr ''Video unavailable''" "''Video unavailable''" loadedState "[]"]
  note a = th [THEN conjunct1, rule_format, OF conjI [OF g(1) conjI [OF g(2) g(3)]]]
  note rest = th [THEN conjunct2, THEN conjunct2, THEN conjunct2, THEN conjunct2, THEN conjunct2,
      THEN conjunct2]
  show ?thesis
    by (rule conjI i(1) i(2) i(3) g(1) g(2) g(3) a rest [THEN conjunct1]
          rest [THEN conjunct2, THEN conjunct1])+
qed

text \<open>
  Claim C6: whenever \<^verbatim>\<open>handleDownload\<close> opens the socket, it closes it exactly
  once, and the close comes after the request, if one was issued, and after whatever
  the \<^verbatim>\<open>try\<close>/\<^verbatim>\<open>catch\<close> statement does: with the way the request ended (\<open>r\<close> is
  any of them: \<^verbatim>\<open>fetch\<close> rejected, body not JSON, response not OK, OK but invalid,
  the navigation refused, success), or with the exception of
  \<^verbatim>\<open>encodeURIComponent\<close> when the url cannot be encoded and no request is issued.
  After the close nothing is opened, requested or navigated to.
\<close>

theorem handleDownload_closes_socket:
  "NewWebSocket w \<in> set (handleDownload env b c rendering evs r) \<longrightarrow>
     count_list (handleDownload env b c rendering evs r) CloseWebSocket = 1
     \<and> (\<exists>pre post.
          handleDownload env b c rendering evs r
            = pre
              @ (case encodeURIComponent (url c) of
                   Inl x \<Rightarrow> downloadCatch x
                 | Inr q \<Rightarrow> downloadSettle env b r)
              @ [SetDownloading False, CloseWebSocket] @ post
          \<and> sockets pre = [w]
          \<and> requests pre
              = (case encodeURIComponent (url c) of
                   Inl x \<Rightarrow> []
                 | Inr q \<Rightarrow>
                     [API_BASE env @ ''/api/download?url='' @ q
                      @ ''&format_id='' @ selectedFormat c
                      @ ''&client_id='' @ clientId rendering])
          \<and> sockets post = [] \<and> requests post = [] \<and> navigations post = [])"
proof
  assume opened: "NewWebSocket w \<in> set (handleDownload env b c rendering evs r)"
  note v = handleDownload_opened(1) [OF opened]
  note ok = handleDownload_opened(2) [OF opened]
  note w = handleDownload_opened(3) [OF opened]
  let ?start = "[SetDownloading True, SetError None, SetDownloadProgress (Some progressStarting),
         MathRandom, NewWebSocket (WS_BASE env @ ''/api/ws/'' @ clientId rendering)]"
  let ?post = "if error c = None \<or> error c = Some [] then [SetTimeout 3000] else []"
  have post: "sockets ?post = []" "requests ?post = []" "navigations ?post = []"
    by (simp_all add: sockets_def requests_def navigations_def)
  have start: "sockets ?start = [w]" "requests ?start = []"
    by (simp_all add: w sockets_def requests_def)
  have count: "count_list (handleDownload env b c rendering evs r) CloseWebSocket = 1"
  proof (cases "encodeURIComponent (url c)")
    case (Inl x)
    show ?thesis
      by (simp add: handleDownload_malformed [OF v ok Inl] downloadCatch_silent
            downloadFinally_silent del: append.simps)
  next
    case (Inr q)
    show ?thesis
      by (simp add: handleDownload_issued [OF v ok Inr] socketEvents_count
            downloadSettle_count downloadFinally_silent del: append.simps)
  qed
  have "\<exists>pre. handleDownload env b c rendering evs r
            = pre
              @ (case encodeURIComponent (url c) of
                   Inl x \<Rightarrow> downloadCatch x
                 | Inr q \<Rightarrow> downloadSettle env b r)
              @ [SetDownloading False, CloseWebSocket] @ ?post
          \<and> sockets pre = [w]
          \<and> requests pre
              = (case encodeURIComponent (url c) of
                   Inl x \<Rightarrow> []
                 | Inr q \<Rightarrow>
                     [API_BASE env @ ''/api/download?url='' @ q
                      @ ''&format_id='' @ selectedFormat c
                      @ ''&client_id='' @ clientId rendering])"
  proof (cases "encodeURIComponent (url c)")
    case (Inl x)
    have "handleDownload env b c rendering evs r
        = ?start @ downloadCatch x @ [SetDownloading False, CloseWebSocket] @ ?post"
      unfolding handleDownload_malformed [OF v ok Inl] downloadFinally_def by simp
    with start show ?thesis
      unfolding Inl sum.case by blast
  next
    case (Inr q)
    let ?pre = "?start
        @ [Fetch (API_BASE env @ ''/api/download?url='' @ q
                  @ ''&format_id='' @ selectedFormat c
                  @ ''&client_id='' @ clientId rendering)]
        @ concat (map socketEvent evs)"
    have shape: "handleDownload env b c rendering evs r
        = ?pre @ downloadSettle env b r @ [SetDownloading False, CloseWebSocket] @ ?post"
      unfolding handleDownload_issued [OF v ok Inr] downloadFinally_def by simp
    have "sockets ?pre = [w]"
      unfolding sockets_append start socketEvents_silent by (simp add: sockets_def)
    moreover have "requests ?pre
        = [API_BASE env @ ''/api/download?url='' @ q
           @ ''&format_id='' @ selectedFormat c @ ''&client_id='' @ clientId rendering]"
      unfolding requests_append start socketEvents_silent by (simp add: requests_def)
    ultimately show ?thesis
      unfolding Inr sum.case using shape by blast
  qed
  with post count show "count_list (handleDownload env b c rendering evs r) CloseWebSocket = 1
     \<and> (\<exists>pre post.
          handleDownload env b c rendering evs r
            = pre
              @ (case encodeURIComponent (url c) of
                   Inl x \<Rightarrow> downloadCatch x
                 | Inr q \<Rightarrow> downloadSettle env b r)
              @ [SetDownloading False, CloseWebSocket] @ post
          \<and> sockets pre = [w]
          \<and> requests pre
              = (case encodeURIComponent (url c) of
                   Inl x \<Rightarrow> []
                 | Inr q \<Rightarrow>
                     [API_BASE env @ ''/api/download?url='' @ q
                      @ ''&format_id='' @ selectedFormat c
                      @ ''&client_id='' @ clientId rendering])
          \<and> sockets post = [] \<and> requests post = [] \<and> navigations post = [])"
    by blast
qed

theorem handleDownload_closes_socket_witness:
  "NewWebSocket ''ws://localhost:8000/api/ws/82mvyr''
     \<in> set (handleDownload None sampleBrowser loadedState ''0.4fzyo82mvyr'' [SocketError]
              (FetchRejected (ErrorObj ''Failed to fetch'')))
   \<and> count_list (handleDownload None sampleBrowser loadedState ''0.4fzyo82mvyr'' [SocketError]
        (FetchRejected (ErrorObj ''Failed to fetch''))) CloseWebSocket = 1
   \<and> NewWebSocket ''ws://localhost:8000/api/ws/82mvyr''
     \<in> set (handleDownload None sampleBrowser surrogateState ''0.4fzyo82mvyr'' []
              (IsOk successBody))
   \<and> count_list (handleDownload None sampleBrowser surrogateState ''0.4fzyo82mvyr'' []
        (IsOk successBody)) CloseWebSocket = 1"
proof -
  have a: "NewWebSocket ''ws://localhost:8000/api/ws/82mvyr''
     \<in> set (handleDownload None sampleBrowser loadedState ''0.4fzyo82mvyr'' [SocketError]
              (FetchRejected (ErrorObj ''Failed to fetch'')))"
    unfolding sockets_member loadedState_download_addresses by simp
  have s: "sockets (handleDownload None sampleBrowser surrogateState ''0.4fzyo82mvyr'' []
        (IsOk successBody)) = [''ws://localhost:8000/api/ws/82mvyr'']"
    unfolding handleDownload_sockets_ok [OF surrogateState_malformed(1,2)] sample_addresses ..
  have b: "NewWebSocket ''ws://localhost:8000/api/ws/82mvyr''
     \<in> set (handleDownload None sampleBrowser surrogateState ''0.4fzyo82mvyr'' []
              (IsOk successBody))"
    unfolding sockets_member s by simp
  show ?thesis
    by (rule conjI a b handleDownload_closes_socket [rule_format, OF a, THEN conjunct1]
          handleDownload_closes_socket [rule_format, OF b, THEN conjunct1])+
qed

section \<open>The message handler\<close>

text \<open>
  Claim C8: a message whose \<^verbatim>\<open>status\<close> is neither \<^verbatim>\<open>"downloading"\<close> nor
  \<^verbatim>\<open>"finished"\<close> makes the handler do nothing, so the whole state, and
  \<open>downloadProgress\<close> in it, stays as it was; this holds in particular for
  \<^verbatim>\<open>"starting"\<close> and \<^verbatim>\<open>"error"\<close>. No socket event of any kind changes the error
  message shown, so an \<^verbatim>\<open>error\<close> event is never surfaced this way.
\<close>

theorem onmessage_other_statuses:
  "(get d ''status'' \<noteq> Inr (JStr ''downloading'') \<and> get d ''status'' \<noteq> Inr (JStr ''finished'')
      \<longrightarrow> onmessage d = [] \<and> run s (socketEvent (Message d)) = s)
   \<and> ((get d ''status'' = Inr (JStr ''starting'') \<or> get d ''status'' = Inr (JStr ''error''))
      \<longrightarrow> downloadProgress (run s (socketEvent (Message d))) = downloadProgress s)
   \<and> error (run s (socketEvent ev)) = error s"
proof (intro conjI impI)
  assume h: "get d ''status'' \<noteq> Inr (JStr ''downloading'') \<and> get d ''status'' \<noteq> Inr (JStr ''finished'')"
  then show e: "onmessage d = []"
    by (auto simp: onmessage_def split: sum.splits)
  show "run s (socketEvent (Message d)) = s"
    by (simp add: e run_Nil)
next
  assume "get d ''status'' = Inr (JStr ''starting'') \<or> get d ''status'' = Inr (JStr ''error'')"
  then have "onmessage d = []"
    by (auto simp: onmessage_def)
  then show "downloadProgress (run s (socketEvent (Message d))) = downloadProgress s"
    by (simp add: run_Nil)
next
  show "error (run s (socketEvent ev)) = error s"
    by (subst socketEvent_run) simp
qed

theorem onmessage_other_statuses_witness:
  "get (JObj [(''status'', JStr ''error''), (''message'', JStr ''Video unavailable'')]) ''status''
     \<noteq> Inr (JStr ''downloading'')
   \<and> get (JObj [(''status'', JStr ''error''), (''message'', JStr ''Video unavailable'')]) ''status''
     \<noteq> Inr (JStr ''finished'')
   \<and> get (JObj [(''status'', JStr ''error''), (''message'', JStr ''Video unavailable'')]) ''status''
     = Inr (JStr ''error'')
   \<and> run (loadedState\<lparr>downloadProgress := Some progressStarting\<rparr>)
        (socketEvent (Message (JObj [(''status'', JStr ''error''), (''message'', JStr ''Video unavailable'')])))
      = loadedState\<lparr>downloadProgress := Some progressStarting\<rparr>"
  using onmessage_other_statuses [of "JObj [(''status'', JStr ''error''), (''message'', JStr ''Video unavailable'')]"
              "loadedState\<lparr>downloadProgress := Some progressStarting\<rparr>" SocketError]
  by (simp add: run_def)

section \<open>The quality list and the blank url\<close>

text \<open>
  Claim C9: \<^verbatim>\<open>getQualityFormats\<close> gives the empty list when \<open>videoInfo\<close> is
  \<^verbatim>\<open>null\<close> (and when it has no \<open>formats\<close>); otherwise it gives the first eight
  (or fewer, if there are fewer) of the entries of \<open>formats\<close> whose \<open>resolution\<close>
  is not \<^verbatim>\<open>null\<close>, not empty and not \<^verbatim>\<open>"audio only"\<close>, in their order, which is
  a subsequence of \<open>formats\<close>.
\<close>

theorem getQualityFormats_first_eight:
  "getQualityFormats None = []
   \<and> (formats v = None \<longrightarrow> getQualityFormats (Some v) = [])
   \<and> (formats v = Some fs \<longrightarrow>
        getQualityFormats (Some v)
          = take 8 (filter (\<lambda>f. resolution f \<noteq> None \<and> resolution f \<noteq> Some []
                                \<and> resolution f \<noteq> Some ''audio only'') fs)
        \<and> subseq (getQualityFormats (Some v)) fs
        \<and> length (getQualityFormats (Some v)) \<le> 8)"
proof (intro conjI impI)
  show "getQualityFormats None = []"
    by (simp add: getQualityFormats_def)
next
  assume "formats v = None"
  then show "getQualityFormats (Some v) = []"
    by (simp add: getQualityFormats_def)
next
  assume fs: "formats v = Some fs"
  let ?keep = "\<lambda>f. resolution f \<noteq> None \<and> resolution f \<noteq> Some []
                    \<and> resolution f \<noteq> Some ''audio only''"
  have same: "((case resolution f of None \<Rightarrow> False | Some r \<Rightarrow> r \<noteq> [])
                \<and> resolution f \<noteq> Some ''audio only'') = ?keep f" for f
    by (cases "resolution f") auto
  show eq: "getQualityFormats (Some v) = take 8 (filter ?keep fs)"
    by (simp add: getQualityFormats_def fs same)
  have "prefix (take 8 (filter ?keep fs)) (filter ?keep fs)"
    by (rule take_is_prefix)
  then have "subseq (take 8 (filter ?keep fs)) (filter ?keep fs)"
    by (rule prefix_imp_subseq)
  also have "subseq (filter ?keep fs) fs"
    by (rule subseq_filter_left)
  finally show "subseq (getQualityFormats (Some v)) fs"
    unfolding eq .
  show "length (getQualityFormats (Some v)) \<le> 8"
    unfolding eq by simp
qed

theorem getQualityFormats_first_eight_witness:
  "formats sampleInfo = Some sampleFormats
   \<and> map format_id (getQualityFormats (Some sampleInfo))
       = [''160'', ''133'', ''134'', ''135'', ''136'', ''137'', ''271'', ''313'']
   \<and> subseq (getQualityFormats (Some sampleInfo)) sampleFormats
   \<and> length (getQualityFormats (Some sampleInfo)) \<le> 8"
  using getQualityFormats_first_eight [of sampleInfo sampleFormats]
  by (simp add: sampleInfo_def) (simp add: sampleFormats_def mkFormat_def)

lemma fetchVideoInfo_blank:
  "trim (url c) = [] \<Longrightarrow> fetchVideoInfo env c r = [SetError (Some ''Please enter a YouTube URL'')]"
  by (simp add: fetchVideoInfo_def)

text \<open>
  Claim C10: when the url is empty after trimming, \<^verbatim>\<open>fetchVideoInfo\<close> does one
  thing, setting the error message \<^verbatim>\<open>"Please enter a YouTube URL"\<close>: it sends no
  request, never calls \<^verbatim>\<open>setLoading\<close> or \<^verbatim>\<open>setVideoInfo\<close>, and leaves every
  other state cell as it was.
\<close>

theorem fetchVideoInfo_blank_url:
  assumes "trim (url c) = []"
  shows "fetchVideoInfo env c r = [SetError (Some ''Please enter a YouTube URL'')]
     \<and> requests (fetchVideoInfo env c r) = []
     \<and> (\<forall>b. SetLoading b \<notin> set (fetchVideoInfo env c r))
     \<and> (\<forall>v. SetVideoInfo v \<notin> set (fetchVideoInfo env c r))
     \<and> run s (fetchVideoInfo env c r) = s\<lparr>error := Some ''Please enter a YouTube URL''\<rparr>"
  by (simp add: fetchVideoInfo_blank [OF assms] requests_def run_def)

theorem fetchVideoInfo_blank_url_witness:
  "trim (url (initialState\<lparr>url := [CHR 0x20, CHR 0x09, CHR 0x20]\<rparr>)) = []
   \<and> fetchVideoInfo None (initialState\<lparr>url := [CHR 0x20, CHR 0x09, CHR 0x20]\<rparr>)
        (IsOk (Some sampleInfo)) = [SetError (Some ''Please enter a YouTube URL'')]
   \<and> run initialState
        (fetchVideoInfo None (initialState\<lparr>url := [CHR 0x20, CHR 0x09, CHR 0x20]\<rparr>)
           (IsOk (Some sampleInfo)))
       = initialState\<lparr>error := Some ''Please enter a YouTube URL''\<rparr>"
proof -
  have blank: "trim (url (initialState\<lparr>url := [CHR 0x20, CHR 0x09, CHR 0x20]\<rparr>)) = []"
    by (simp add: trim_def trimStart_def trimEnd_def whitespace_def)
  show ?thesis
    using blank fetchVideoInfo_blank_url [OF blank, of None "IsOk (Some sampleInfo)" initialState]
    by (simp add: run_def)
qed

section \<open>Server side: what a sink receives\<close>






















end
